theory Spec2Isabelle
  imports Main "HOL-Library.Sublist"
begin

section \<open>JavaScript values\<close>

text \<open>
  The values that travel through the tools: validated arguments (\<open>z.record(z.string(),
  z.unknown())\<close>), documents returned by the driver, and native BSON values such as an
  ObjectId, which \<open>EJSON.parse\<close> produces from \<open>{"$oid": ...}\<close>.
\<close>

datatype jsval =
    JUndefined
  | JNull
  | JBool bool
  | JNum int
  | JStr string
  | JArr "jsval list"
  | JObj "(string \<times> jsval) list"
  | JObjectId string

text \<open>
  JavaScript truthiness, as used by \<open>!!x\<close>, \<open>x ? a : b\<close> and \<open>if (!x)\<close>: objects and
  arrays (also empty ones) are truthy; \<open>undefined\<close>, \<open>null\<close>, \<open>false\<close>, \<open>0\<close> and the
  empty string are falsy.
\<close>

fun truthy :: "jsval \<Rightarrow> bool" where
  "truthy JUndefined = False"
| "truthy JNull = False"
| "truthy (JBool b) = b"
| "truthy (JNum n) = (n \<noteq> 0)"
| "truthy (JStr s) = (s \<noteq> [])"
| "truthy (JArr _) = True"
| "truthy (JObj _) = True"
| "truthy (JObjectId _) = True"

text \<open>An optional string of the configuration (\<open>string | undefined\<close>).\<close>

definition truthy_str :: "string option \<Rightarrow> bool" where
  "truthy_str s = (case s of None \<Rightarrow> False | Some t \<Rightarrow> t \<noteq> [])"

section \<open>Configuration and the info endpoint\<close>

text \<open>
  The fields of \<open>config\<close> and \<open>packageInfo\<close> that the HTTP entry points read
  (\<open>config.ts\<close> and \<open>helpers/packageInfo.ts\<close> themselves are imported, not defined, by
  the three entry points).
\<close>

record user_config =
  apiBaseUrl :: "string option"
  apiClientId :: "string option"
  apiClientSecret :: "string option"
  connectionString :: "string option"
  readOnly :: bool
  disabledTools :: "string list"

record package_info =
  mcpServerName :: string
  version :: string

record info_config =
  hasAtlasCredentials :: bool
  hasConnectionString :: bool
  info_readOnly :: bool
  info_disabledTools :: "string list"

record info_response =
  info_name :: string
  info_version :: string
  info_description :: string
  info_transport :: "string option"
  info_endpoints :: "(string \<times> string) list"
  info_cfg :: info_config

text \<open>
  The \<open>config\<close> object of the payload, identical in the three handlers:
  \<open>!!(config.apiClientId && config.apiClientSecret)\<close>, \<open>!!config.connectionString\<close>,
  \<open>config.readOnly\<close>, \<open>config.disabledTools\<close>.
\<close>

definition info_config_of :: "user_config \<Rightarrow> info_config" where
  "info_config_of cfg =
     \<lparr> hasAtlasCredentials = (truthy_str (apiClientId cfg) \<and> truthy_str (apiClientSecret cfg)),
       hasConnectionString = truthy_str (connectionString cfg),
       info_readOnly = readOnly cfg,
       info_disabledTools = disabledTools cfg \<rparr>"

text \<open>\<open>app.get('/info')\<close> of \<open>http-server.ts\<close>.\<close>

definition info_http :: "package_info \<Rightarrow> user_config \<Rightarrow> info_response" where
  "info_http pkg cfg =
     \<lparr> info_name = mcpServerName pkg,
       info_version = version pkg,
       info_description = ''MongoDB MCP Server HTTP Wrapper'',
       info_transport = None,
       info_endpoints = [],
       info_cfg = info_config_of cfg \<rparr>"

text \<open>\<open>app.get('/info')\<close> of the event-stream entry point (\<open>part_003\<close>).\<close>

definition info_sse :: "package_info \<Rightarrow> user_config \<Rightarrow> info_response" where
  "info_sse pkg cfg =
     \<lparr> info_name = mcpServerName pkg,
       info_version = version pkg,
       info_description = ''MongoDB MCP Server HTTP Wrapper'',
       info_transport = Some ''SSE (Server-Sent Events)'',
       info_endpoints = [(''health'', ''/health''), (''info'', ''/info''), (''sse'', ''/sse'')],
       info_cfg = info_config_of cfg \<rparr>"

text \<open>\<open>app.get('/info')\<close> of the streamable-HTTP entry point (\<open>part_004\<close>).\<close>

definition info_streamable :: "package_info \<Rightarrow> user_config \<Rightarrow> info_response" where
  "info_streamable pkg cfg =
     \<lparr> info_name = mcpServerName pkg,
       info_version = version pkg,
       info_description = ''MongoDB MCP Server HTTP Wrapper'',
       info_transport = Some ''Streamable HTTP'',
       info_endpoints = [(''health'', ''/health''), (''info'', ''/info''), (''mcp'', ''/mcp'')],
       info_cfg = info_config_of cfg \<rparr>"

text \<open>The three handlers, for statements about all of them.\<close>

definition info_handlers :: "(package_info \<Rightarrow> user_config \<Rightarrow> info_response) list" where
  "info_handlers = [info_http, info_sse, info_streamable]"

text \<open>Overwriting the two presence booleans of a response.\<close>

definition with_presence :: "bool \<Rightarrow> bool \<Rightarrow> info_response \<Rightarrow> info_response" where
  "with_presence a c r =
     r\<lparr> info_cfg := (info_cfg r)\<lparr> hasAtlasCredentials := a, hasConnectionString := c \<rparr> \<rparr>"

section \<open>Errors, results and the backend\<close>

text \<open>
  What a tool body can raise. \<open>JsError m c\<close> is an \<open>Error\<close> instance with message \<open>m\<close>,
  and with a \<open>codeName\<close> property when \<open>c\<close> is \<open>Some\<close> (the driver's server errors have
  one); \<open>ThrownValue s\<close> is a thrown value that is not an \<open>Error\<close>, \<open>s\<close> its string
  form. The first two are the failures of the helpers of \<open>mongodbTool.ts\<close>, which the
  tools import.
\<close>

datatype js_error =
    ErrDatabaseNotSpecified
  | ErrBackendUnavailable
  | JsError string "string option"
  | ThrownValue string

fun instanceofError :: "js_error \<Rightarrow> bool" where
  "instanceofError (ThrownValue _) = False"
| "instanceofError _ = True"

fun codeNameOf :: "js_error \<Rightarrow> string option" where
  "codeNameOf (JsError _ c) = c"
| "codeNameOf _ = None"

text \<open>A content block \<open>{ text, type: "text" }\<close>; a \<open>CallToolResult\<close> is its \<open>content\<close>.\<close>

datatype content_block = TextBlock string

type_synonym CallToolResult = "content_block list"

datatype error_kind =
    UnknownTool
  | InvalidArguments
  | OperationNotPermitted
  | DatabaseNotSpecified
  | BackendUnavailable
  | DomainError
  | ExecutionFailed
  | InternalError

text \<open>
  What a call gives back: the result a tool body or an error translator returned, or an
  error result of one of the kinds, with the messages it carries.
\<close>

datatype protocol_result =
    ToolResult CallToolResult
  | ErrorResult error_kind "string list"

datatype OperationType = Create | Read | Update | Delete | Metadata

text \<open>
  \<open>FindArgs\<close> of \<open>find.ts\<close>; \<open>find_options\<close> is the object \<open>{ projection, limit, sort }\<close>
  that goes to \<open>provider.find\<close> (in the explain tool: the rest of the arguments without
  \<open>filter\<close>). \<open>None\<close> is \<open>undefined\<close>.
\<close>

record find_options =
  projection_arg :: "jsval option"
  limit_arg :: int
  sort_arg :: "jsval option"

record FindArgs = find_options +
  filter_arg :: "jsval option"

record AggregateArgs =
  pipeline :: "jsval list"

record CountArgs =
  query :: "jsval option"

text \<open>How a cursor returned by \<open>provider.find\<close> or \<open>provider.aggregate\<close> is consumed.\<close>

datatype cursor_use = ToArray | Explain string

text \<open>
  The operations the tools issue on the provider, with their arguments. The flag of
  \<open>Aggregate\<close> says whether the two option objects \<open>{}, { writeConcern: undefined }\<close> were
  passed (the explain tool passes them, the aggregate tool does not).
\<close>

datatype backend_op =
    InsertMany string string "jsval list"
  | CreateCollection string string
  | DropDatabase string
  | RenameCollection string string string bool
  | Find string string "jsval option" find_options cursor_use
  | Aggregate string string jsval bool cursor_use
  | Command string jsval
  | GetIndexes string string

record insert_result =
  insertedCount :: nat
  insertedIds :: "string list"

record index_definition =
  index_name :: string
  index_key :: jsval

text \<open>
  The Backend Connection Provider is an opaque collaborator: its answers are parameters.
  Each answer is a value or a raised error.
\<close>

record provider =
  p_insertMany :: "string \<Rightarrow> string \<Rightarrow> jsval list \<Rightarrow> js_error + insert_result"
  p_createCollection :: "string \<Rightarrow> string \<Rightarrow> js_error + unit"
  p_dropDatabase :: "string \<Rightarrow> js_error + bool"
  p_renameCollection :: "string \<Rightarrow> string \<Rightarrow> string \<Rightarrow> bool \<Rightarrow> js_error + string"
  p_find :: "string \<Rightarrow> string \<Rightarrow> jsval option \<Rightarrow> find_options \<Rightarrow> js_error + jsval list"
  p_find_explain :: "string \<Rightarrow> string \<Rightarrow> jsval option \<Rightarrow> find_options \<Rightarrow> string \<Rightarrow> js_error + jsval"
  p_aggregate :: "string \<Rightarrow> string \<Rightarrow> jsval \<Rightarrow> js_error + jsval list"
  p_aggregate_explain :: "string \<Rightarrow> string \<Rightarrow> jsval \<Rightarrow> string \<Rightarrow> js_error + jsval"
  p_command :: "string \<Rightarrow> jsval \<Rightarrow> js_error + jsval"
  p_getIndexes :: "string \<Rightarrow> string \<Rightarrow> js_error + index_definition list"

text \<open>The library functions the tools call (\<open>JSON\<close> of the runtime, \<open>EJSON\<close> of bson).\<close>

record js_lib =
  JSON_stringify :: "jsval \<Rightarrow> string"
  EJSON_parse :: "string \<Rightarrow> js_error + jsval"
  EJSON_stringify :: "jsval \<Rightarrow> string"

text \<open>
  What a tool instance sees: the Session's default database, whether a connect attempt
  fails, the provider's answers and the libraries.
\<close>

record env =
  defaultDatabase :: "string option"
  connectFails :: bool
  backend :: provider
  lib :: js_lib

text \<open>
  The observable state: whether the Session's provider is connected, how many connect
  attempts were made, the operations issued on the provider, and the tools whose
  execute function was entered.
\<close>

record world =
  connected :: bool
  connectAttempts :: nat
  calls :: "backend_op list"
  invoked :: "string list"

type_synonym 'a io = "world \<Rightarrow> (js_error + 'a) \<times> world"

definition ret :: "'a \<Rightarrow> 'a io" where
  "ret x = (\<lambda>w. (Inr x, w))"

definition throw :: "js_error \<Rightarrow> 'a io" where
  "throw e = (\<lambda>w. (Inl e, w))"

definition bind :: "'a io \<Rightarrow> ('a \<Rightarrow> 'b io) \<Rightarrow> 'b io" where
  "bind m f = (\<lambda>w. case m w of (Inl e, w') \<Rightarrow> (Inl e, w') | (Inr x, w') \<Rightarrow> f x w')"

text \<open>A pure computation that may raise.\<close>

definition lift :: "js_error + 'a \<Rightarrow> 'a io" where
  "lift r = (\<lambda>w. (r, w))"

text \<open>Issuing an operation on the provider: it is recorded, and answers or raises.\<close>

definition issue :: "backend_op \<Rightarrow> js_error + 'a \<Rightarrow> 'a io" where
  "issue op answer = (\<lambda>w. (answer, w\<lparr> calls := calls w @ [op] \<rparr>))"

subsection \<open>The helpers of the tool base class\<close>

text \<open>
  Modelled from the spec: \<open>MongoDBToolBase.ensureConnected\<close> of \<open>mongodbTool.ts\<close>, which
  is not among the sources. Section 4.2 step 4: if the provider is disconnected, connect
  now; a connection failure is the error of kind \<open>BackendUnavailable\<close>.
\<close>

definition ensureConnected :: "env \<Rightarrow> unit io" where
  "ensureConnected en = (\<lambda>w.
     if connected w then (Inr (), w)
     else if connectFails en
       then (Inl ErrBackendUnavailable, w\<lparr> connectAttempts := connectAttempts w + 1 \<rparr>)
       else (Inr (), w\<lparr> connected := True, connectAttempts := connectAttempts w + 1 \<rparr>))"

text \<open>
  Modelled from the spec: \<open>MongoDBToolBase.getEffectiveDatabase\<close> of \<open>mongodbTool.ts\<close>,
  which is not among the sources. Section 4.3: returns \<open>requested\<close> if present and
  non-empty, else the Session's configured default, else fails with
  \<open>DatabaseNotSpecified\<close>.
\<close>

definition getEffectiveDatabase :: "env \<Rightarrow> string option \<Rightarrow> js_error + string" where
  "getEffectiveDatabase en requested =
     (case requested of
        Some d \<Rightarrow>
          if d \<noteq> [] then Inr d
          else (case defaultDatabase en of Some dd \<Rightarrow> Inr dd | None \<Rightarrow> Inl ErrDatabaseNotSpecified)
      | None \<Rightarrow>
          (case defaultDatabase en of Some dd \<Rightarrow> Inr dd | None \<Rightarrow> Inl ErrDatabaseNotSpecified))"

text \<open>
  The message of a raised error, \<open>error.message\<close> (for a thrown value that is no
  \<open>Error\<close>, its string form). The spec names the two failures of the helpers by their
  kind only; the name of the kind stands for their message.
\<close>

fun messageOf :: "js_error \<Rightarrow> string" where
  "messageOf (JsError m c) = m"
| "messageOf (ThrownValue t) = t"
| "messageOf ErrDatabaseNotSpecified = ''DatabaseNotSpecified''"
| "messageOf ErrBackendUnavailable = ''BackendUnavailable''"

text \<open>
  Modelled from the spec: the inherited \<open>handleError\<close> that the overrides call through
  \<open>super.handleError\<close> (\<open>tool.ts\<close> and \<open>mongodbTool.ts\<close>, not among the sources).
  Section 4.2 step 7: if no translator claims the error that execute raised, fall back to
  a generic error result of kind \<open>ExecutionFailed\<close>, embedding the error's message.
\<close>

definition super_handleError :: "js_error \<Rightarrow> js_error + protocol_result" where
  "super_handleError e = Inr (ErrorResult ExecutionFailed [messageOf e])"

subsection \<open>Text formatting\<close>

definition digit_char :: "nat \<Rightarrow> char" where
  "digit_char d =
     (if d = 0 then CHR ''0'' else if d = 1 then CHR ''1'' else if d = 2 then CHR ''2''
      else if d = 3 then CHR ''3'' else if d = 4 then CHR ''4'' else if d = 5 then CHR ''5''
      else if d = 6 then CHR ''6'' else if d = 7 then CHR ''7'' else if d = 8 then CHR ''8''
      else CHR ''9'')"

text \<open>The decimal form of a count, as template strings print \<open>documents.length\<close>.\<close>

fun string_of_nat :: "nat \<Rightarrow> string" where
  "string_of_nat n =
     (if n < 10 then [digit_char n] else string_of_nat (n div 10) @ [digit_char (n mod 10)])"

text \<open>\<open>Array.prototype.join\<close> on strings.\<close>

fun join :: "string \<Rightarrow> string list \<Rightarrow> string" where
  "join sep [] = []"
| "join sep [x] = x"
| "join sep (x # y # ys) = x @ sep @ join sep (y # ys)"

section \<open>The tools\<close>

text \<open>
  \<open>DbOperationArgs\<close> is imported from \<open>mongodbTool.ts\<close>; the tools read its \<open>database\<close>
  (handed to \<open>getEffectiveDatabase\<close>, so it may be absent) and \<open>collection\<close>.
\<close>

record DatabaseArgs =
  database :: "string option"

record DbOperationArgs = DatabaseArgs +
  collection :: string

record InsertManyArgs = DbOperationArgs +
  documents :: "jsval list"

record RenameCollectionArgs = DbOperationArgs +
  newName :: string
  dropTarget :: bool

record FindToolArgs = DbOperationArgs +
  find_args :: FindArgs

record AggregateToolArgs = DbOperationArgs +
  aggregate_args :: AggregateArgs

text \<open>One element of the explain tool's \<open>method\<close> array: the union over \<open>name\<close>.\<close>

datatype explain_method =
    AggregateMethod AggregateArgs
  | FindMethod FindArgs
  | CountMethod CountArgs

fun method_name :: "explain_method \<Rightarrow> string" where
  "method_name (AggregateMethod _) = ''aggregate''"
| "method_name (FindMethod _) = ''find''"
| "method_name (CountMethod _) = ''count''"

record ExplainArgs = DbOperationArgs +
  method_arg :: "explain_method list"

subsection \<open>\<open>create/insertMany.ts\<close>\<close>

definition InsertManyTool_name :: string where
  "InsertManyTool_name = ''insert-many''"

definition InsertManyTool_operationType :: OperationType where
  "InsertManyTool_operationType = Create"

definition InsertManyTool_execute :: "env \<Rightarrow> 'a InsertManyArgs_scheme \<Rightarrow> CallToolResult io" where
  \<open>InsertManyTool_execute en args =
     bind (ensureConnected en) (\<lambda>_.
     bind (lift (getEffectiveDatabase en (database args))) (\<lambda>effectiveDatabase.
     bind (issue (InsertMany effectiveDatabase (collection args) (documents args))
             (p_insertMany (backend en) effectiveDatabase (collection args) (documents args)))
       (\<lambda>result.
     ret [TextBlock (''Inserted `'' @ string_of_nat (insertedCount result)
                      @ ''` document(s) into collection "'' @ collection args @ ''"''),
          TextBlock (''Inserted IDs: '' @ join '', '' (insertedIds result))])))\<close>

subsection \<open>\<open>create/createCollection.ts\<close>\<close>

definition CreateCollectionTool_name :: string where
  "CreateCollectionTool_name = ''create-collection''"

definition CreateCollectionTool_operationType :: OperationType where
  "CreateCollectionTool_operationType = Create"

definition CreateCollectionTool_execute ::
  "env \<Rightarrow> 'a DbOperationArgs_scheme \<Rightarrow> CallToolResult io" where
  \<open>CreateCollectionTool_execute en args =
     bind (ensureConnected en) (\<lambda>_.
     bind (lift (getEffectiveDatabase en (database args))) (\<lambda>effectiveDatabase.
     bind (issue (CreateCollection effectiveDatabase (collection args))
             (p_createCollection (backend en) effectiveDatabase (collection args)))
       (\<lambda>_.
     ret [TextBlock (''Collection "'' @ collection args @ ''" created in database "''
                      @ effectiveDatabase @ ''".'')])))\<close>

subsection \<open>\<open>delete/dropDatabase.ts\<close>\<close>

definition DropDatabaseTool_name :: string where
  "DropDatabaseTool_name = ''drop-database''"

definition DropDatabaseTool_operationType :: OperationType where
  "DropDatabaseTool_operationType = Delete"

definition DropDatabaseTool_execute :: "env \<Rightarrow> 'a DatabaseArgs_scheme \<Rightarrow> CallToolResult io" where
  \<open>DropDatabaseTool_execute en args =
     bind (ensureConnected en) (\<lambda>_.
     bind (lift (getEffectiveDatabase en (database args))) (\<lambda>effectiveDatabase.
     bind (issue (DropDatabase effectiveDatabase) (p_dropDatabase (backend en) effectiveDatabase))
       (\<lambda>ok.
     ret [TextBlock ((if ok then ''Successfully dropped'' else ''Failed to drop'')
                      @ '' database "'' @ effectiveDatabase @ ''"'')])))\<close>

subsection \<open>\<open>update/renameCollection.ts\<close>\<close>

definition RenameCollectionTool_name :: string where
  "RenameCollectionTool_name = ''rename-collection''"

definition RenameCollectionTool_operationType :: OperationType where
  "RenameCollectionTool_operationType = Update"

definition RenameCollectionTool_execute ::
  "env \<Rightarrow> 'a RenameCollectionArgs_scheme \<Rightarrow> CallToolResult io" where
  \<open>RenameCollectionTool_execute en args =
     bind (ensureConnected en) (\<lambda>_.
     bind (lift (getEffectiveDatabase en (database args))) (\<lambda>effectiveDatabase.
     bind (issue (RenameCollection effectiveDatabase (collection args) (newName args)
                    (dropTarget args))
             (p_renameCollection (backend en) effectiveDatabase (collection args) (newName args)
                (dropTarget args)))
       (\<lambda>collectionName.
     ret [TextBlock (''Collection "'' @ collection args @ ''" renamed to "'' @ collectionName
                      @ ''" in database "'' @ effectiveDatabase @ ''".'')])))\<close>

text \<open>
  The override of \<open>handleError\<close>. The effective database is computed as soon as the error
  is an \<open>Error\<close> with a \<open>codeName\<close>, before the \<open>switch\<close>; a \<open>codeName\<close> that no \<open>case\<close>
  matches falls out of the \<open>switch\<close> and of the \<open>if\<close>, to \<open>super.handleError\<close>.
\<close>

definition RenameCollectionTool_handleError ::
  "env \<Rightarrow> js_error \<Rightarrow> 'a RenameCollectionArgs_scheme \<Rightarrow> js_error + protocol_result" where
  \<open>RenameCollectionTool_handleError en error args =
     (if instanceofError error \<and> codeNameOf error \<noteq> None then
        (case getEffectiveDatabase en (database args) of
           Inl e \<Rightarrow> Inl e
         | Inr effectiveDatabase \<Rightarrow>
             if codeNameOf error = Some ''NamespaceNotFound'' then
               Inr (ToolResult [TextBlock (''Cannot rename "'' @ effectiveDatabase @ ''.''
                      @ collection args @ ''" because it doesn't exist.'')])
             else if codeNameOf error = Some ''NamespaceExists'' then
               Inr (ToolResult [TextBlock (''Cannot rename "'' @ effectiveDatabase @ ''.''
                      @ collection args @ ''" to "'' @ newName args
                      @ ''" because the target collection already exists. If you want to overwrite it, set the "dropTarget" argument to true.'')])
             else super_handleError error)
      else super_handleError error)\<close>

subsection \<open>\<open>read/collectionIndexes.ts\<close> (\<open>part_002\<close>)\<close>

definition CollectionIndexesTool_name :: string where
  "CollectionIndexesTool_name = ''collection-indexes''"

definition CollectionIndexesTool_operationType :: OperationType where
  "CollectionIndexesTool_operationType = Read"

definition CollectionIndexesTool_execute ::
  "env \<Rightarrow> 'a DbOperationArgs_scheme \<Rightarrow> CallToolResult io" where
  \<open>CollectionIndexesTool_execute en args =
     bind (ensureConnected en) (\<lambda>_.
     bind (lift (getEffectiveDatabase en (database args))) (\<lambda>effectiveDatabase.
     bind (issue (GetIndexes effectiveDatabase (collection args))
             (p_getIndexes (backend en) effectiveDatabase (collection args)))
       (\<lambda>indexes.
     ret (TextBlock (''Found '' @ string_of_nat (length indexes)
                      @ '' indexes in the collection "'' @ collection args @ ''":'')
          # map (\<lambda>indexDefinition.
                  TextBlock (''Name "'' @ index_name indexDefinition @ ''", definition: ''
                    @ JSON_stringify (lib en) (index_key indexDefinition)))
              indexes))))\<close>

definition CollectionIndexesTool_handleError ::
  "env \<Rightarrow> js_error \<Rightarrow> 'a DbOperationArgs_scheme \<Rightarrow> js_error + protocol_result" where
  \<open>CollectionIndexesTool_handleError en error args =
     (if instanceofError error \<and> codeNameOf error \<noteq> None
         \<and> codeNameOf error = Some ''NamespaceNotFound'' then
        (case getEffectiveDatabase en (database args) of
           Inl e \<Rightarrow> Inl e
         | Inr effectiveDatabase \<Rightarrow>
             Inr (ToolResult [TextBlock (''The indexes for "'' @ effectiveDatabase @ ''.''
                    @ collection args
                    @ ''" cannot be determined because the collection does not exist.'')]))
      else super_handleError error)\<close>

subsection \<open>\<open>read/find.ts\<close>\<close>

definition FindTool_name :: string where
  "FindTool_name = ''find''"

definition FindTool_operationType :: OperationType where
  "FindTool_operationType = Read"

text \<open>
  \<open>filter ? EJSON.parse(JSON.stringify(filter)) : filter\<close>, and the same expression on
  the pipeline in the aggregate tool: a truthy value is stringified and parsed, which
  may raise; an absent or falsy one is passed on as it is.
\<close>

definition parse_if_present :: "js_lib \<Rightarrow> jsval option \<Rightarrow> js_error + jsval option" where
  "parse_if_present l v =
     (case v of
        None \<Rightarrow> Inr None
      | Some x \<Rightarrow>
          if truthy x then
            (case EJSON_parse l (JSON_stringify l x) of Inl e \<Rightarrow> Inl e | Inr y \<Rightarrow> Inr (Some y))
          else Inr (Some x))"

text \<open>The \<open>console.log\<close> lines of the body write to the process's standard output only.\<close>

definition FindTool_execute :: "env \<Rightarrow> 'a FindToolArgs_scheme \<Rightarrow> CallToolResult io" where
  \<open>FindTool_execute en args =
     bind (ensureConnected en) (\<lambda>_.
     bind (lift (getEffectiveDatabase en (database args))) (\<lambda>effectiveDatabase.
     bind (lift (parse_if_present (lib en) (filter_arg (find_args args)))) (\<lambda>parsedFilter.
     bind (issue (Find effectiveDatabase (collection args) parsedFilter
                    \<lparr> projection_arg = projection_arg (find_args args),
                      limit_arg = limit_arg (find_args args),
                      sort_arg = sort_arg (find_args args) \<rparr> ToArray)
             (p_find (backend en) effectiveDatabase (collection args) parsedFilter
                    \<lparr> projection_arg = projection_arg (find_args args),
                      limit_arg = limit_arg (find_args args),
                      sort_arg = sort_arg (find_args args) \<rparr>))
       (\<lambda>documents.
     ret (TextBlock (''Found '' @ string_of_nat (length documents)
                      @ '' documents in the collection "'' @ collection args @ ''":'')
          # map (\<lambda>doc. TextBlock (EJSON_stringify (lib en) doc)) documents)))))\<close>

subsection \<open>\<open>read/aggregate.ts\<close>\<close>

definition AggregateTool_name :: string where
  "AggregateTool_name = ''aggregate''"

definition AggregateTool_operationType :: OperationType where
  "AggregateTool_operationType = Read"

text \<open>The pipeline is a required array, so it is always present (and an array is truthy).\<close>

definition AggregateTool_execute ::
  "env \<Rightarrow> 'a AggregateToolArgs_scheme \<Rightarrow> CallToolResult io" where
  \<open>AggregateTool_execute en args =
     bind (ensureConnected en) (\<lambda>_.
     bind (lift (getEffectiveDatabase en (database args))) (\<lambda>effectiveDatabase.
     bind (lift (parse_if_present (lib en) (Some (JArr (pipeline (aggregate_args args))))))
       (\<lambda>parsedPipeline.
     bind (issue (Aggregate effectiveDatabase (collection args)
                    (case parsedPipeline of Some q \<Rightarrow> q | None \<Rightarrow> JUndefined) False ToArray)
             (p_aggregate (backend en) effectiveDatabase (collection args)
                    (case parsedPipeline of Some q \<Rightarrow> q | None \<Rightarrow> JUndefined)))
       (\<lambda>documents.
     ret (TextBlock (''Found '' @ string_of_nat (length documents)
                      @ '' documents in the collection "'' @ collection args @ ''":'')
          # map (\<lambda>doc. TextBlock (EJSON_stringify (lib en) doc)) documents)))))\<close>

subsection \<open>\<open>metadata/explain.ts\<close>\<close>

definition ExplainTool_name :: string where
  "ExplainTool_name = ''explain''"

definition ExplainTool_operationType :: OperationType where
  "ExplainTool_operationType = Metadata"

definition defaultVerbosity :: string where
  "defaultVerbosity = ''queryPlanner''"

text \<open>
  The \<open>switch (method.name)\<close> of the body: the one operation issued for the chosen method.
  The count case sends the command
  \<open>{ explain: { count: collection, query }, verbosity }\<close> to the database.
\<close>

fun explain_method_run :: "env \<Rightarrow> string \<Rightarrow> string \<Rightarrow> explain_method \<Rightarrow> jsval io" where
  "explain_method_run en effectiveDatabase coll (AggregateMethod a) =
     issue (Aggregate effectiveDatabase coll (JArr (pipeline a)) True (Explain defaultVerbosity))
       (p_aggregate_explain (backend en) effectiveDatabase coll (JArr (pipeline a))
          defaultVerbosity)"
| "explain_method_run en effectiveDatabase coll (FindMethod a) =
     issue (Find effectiveDatabase coll (filter_arg a)
              \<lparr> projection_arg = projection_arg a, limit_arg = limit_arg a,
                sort_arg = sort_arg a \<rparr> (Explain defaultVerbosity))
       (p_find_explain (backend en) effectiveDatabase coll (filter_arg a)
              \<lparr> projection_arg = projection_arg a, limit_arg = limit_arg a,
                sort_arg = sort_arg a \<rparr> defaultVerbosity)"
| "explain_method_run en effectiveDatabase coll (CountMethod a) =
     issue (Command effectiveDatabase
              (JObj [(''explain'', JObj [(''count'', JStr coll),
                                        (''query'', (case query a of None \<Rightarrow> JUndefined
                                                     | Some q \<Rightarrow> q))]),
                     (''verbosity'', JStr defaultVerbosity)]))
       (p_command (backend en) effectiveDatabase
              (JObj [(''explain'', JObj [(''count'', JStr coll),
                                        (''query'', (case query a of None \<Rightarrow> JUndefined
                                                     | Some q \<Rightarrow> q))]),
                     (''verbosity'', JStr defaultVerbosity)]))"

text \<open>
  \<open>methods[0]\<close> of an empty array is \<open>undefined\<close>, and \<open>if (!method)\<close> then throws; the
  elements of the validated array are objects, so a first element is never falsy.
\<close>

definition ExplainTool_execute :: "env \<Rightarrow> 'a ExplainArgs_scheme \<Rightarrow> CallToolResult io" where
  \<open>ExplainTool_execute en args =
     bind (ensureConnected en) (\<lambda>_.
     bind (lift (getEffectiveDatabase en (database args))) (\<lambda>effectiveDatabase.
     (case method_arg args of
        [] \<Rightarrow> throw (JsError
                ''No method provided. Expected one of the following: `aggregate`, `find`, or `count`''
                None)
      | method # _ \<Rightarrow>
          bind (explain_method_run en effectiveDatabase (collection args) method) (\<lambda>result.
          ret [TextBlock (''Here is some information about the winning plan chosen by the query optimizer for running the given `''
                 @ method_name method @ ''` operation in "'' @ effectiveDatabase @ ''.''
                 @ collection args
                 @ ''". This information can be used to understand how the query was executed and to optimize the query performance.''),
               TextBlock (JSON_stringify (lib en) result)]))))\<close>

section \<open>The execution pipeline\<close>

text \<open>
  Modelled from the spec: the Tool Descriptor contract of \<open>tool.ts\<close>, which is not among
  the sources. A validated call bound to its tool is the execute function applied to the
  validated arguments, and the tool's \<open>handleError\<close> applied to them.
\<close>

record bound_call =
  bc_execute :: "CallToolResult io"
  bc_handleError :: "js_error \<Rightarrow> js_error + protocol_result"

text \<open>
  Modelled from the spec: a Tool Descriptor (section 3), with its name, its operation
  category, and its argument schema, which either rejects the raw arguments with
  field-level messages or yields the validated call: the bound call, and the database
  the call specifies, if any, which step 5 of the pipeline reads.
\<close>

record validated_call = bound_call +
  requested_database :: "string option"

record 'raw tool_descriptor =
  td_name :: string
  td_category :: OperationType
  td_bind :: "'raw \<Rightarrow> string list + validated_call"

definition mk_tool ::
  "string \<Rightarrow> OperationType \<Rightarrow> ('raw \<Rightarrow> string list + 'args) \<Rightarrow> ('args \<Rightarrow> string option)
     \<Rightarrow> ('args \<Rightarrow> CallToolResult io)
     \<Rightarrow> (js_error \<Rightarrow> 'args \<Rightarrow> js_error + protocol_result) \<Rightarrow> 'raw tool_descriptor" where
  "mk_tool nm cat schema requested execute handleError =
     \<lparr> td_name = nm, td_category = cat,
       td_bind = (\<lambda>raw. case schema raw of
                          Inl msgs \<Rightarrow> Inl msgs
                        | Inr a \<Rightarrow> Inr \<lparr> bc_execute = execute a,
                                        bc_handleError = (\<lambda>e. handleError e a),
                                        requested_database = requested a \<rparr>) \<rparr>"

text \<open>
  The tools of the sources as descriptors, over a schema for their arguments. The database
  a call specifies is the \<open>database\<close> of its validated arguments.
\<close>

definition InsertManyTool ::
  "env \<Rightarrow> ('raw \<Rightarrow> string list + InsertManyArgs) \<Rightarrow> 'raw tool_descriptor" where
  "InsertManyTool en schema =
     mk_tool InsertManyTool_name InsertManyTool_operationType schema database
       (InsertManyTool_execute en) (\<lambda>e a. super_handleError e)"

definition CreateCollectionTool ::
  "env \<Rightarrow> ('raw \<Rightarrow> string list + DbOperationArgs) \<Rightarrow> 'raw tool_descriptor" where
  "CreateCollectionTool en schema =
     mk_tool CreateCollectionTool_name CreateCollectionTool_operationType schema database
       (CreateCollectionTool_execute en) (\<lambda>e a. super_handleError e)"

definition DropDatabaseTool ::
  "env \<Rightarrow> ('raw \<Rightarrow> string list + DatabaseArgs) \<Rightarrow> 'raw tool_descriptor" where
  "DropDatabaseTool en schema =
     mk_tool DropDatabaseTool_name DropDatabaseTool_operationType schema database
       (DropDatabaseTool_execute en) (\<lambda>e a. super_handleError e)"

definition RenameCollectionTool ::
  "env \<Rightarrow> ('raw \<Rightarrow> string list + RenameCollectionArgs) \<Rightarrow> 'raw tool_descriptor" where
  "RenameCollectionTool en schema =
     mk_tool RenameCollectionTool_name RenameCollectionTool_operationType schema database
       (RenameCollectionTool_execute en) (RenameCollectionTool_handleError en)"

definition CollectionIndexesTool ::
  "env \<Rightarrow> ('raw \<Rightarrow> string list + DbOperationArgs) \<Rightarrow> 'raw tool_descriptor" where
  "CollectionIndexesTool en schema =
     mk_tool CollectionIndexesTool_name CollectionIndexesTool_operationType schema database
       (CollectionIndexesTool_execute en) (CollectionIndexesTool_handleError en)"

definition FindTool ::
  "env \<Rightarrow> ('raw \<Rightarrow> string list + FindToolArgs) \<Rightarrow> 'raw tool_descriptor" where
  "FindTool en schema =
     mk_tool FindTool_name FindTool_operationType schema database
       (FindTool_execute en) (\<lambda>e a. super_handleError e)"

definition AggregateTool ::
  "env \<Rightarrow> ('raw \<Rightarrow> string list + AggregateToolArgs) \<Rightarrow> 'raw tool_descriptor" where
  "AggregateTool en schema =
     mk_tool AggregateTool_name AggregateTool_operationType schema database
       (AggregateTool_execute en) (\<lambda>e a. super_handleError e)"

definition ExplainTool ::
  "env \<Rightarrow> ('raw \<Rightarrow> string list + ExplainArgs) \<Rightarrow> 'raw tool_descriptor" where
  "ExplainTool en schema =
     mk_tool ExplainTool_name ExplainTool_operationType schema database
       (ExplainTool_execute en) (\<lambda>e a. super_handleError e)"

text \<open>Modelled from the spec: resolving a tool by name in the registry (section 4.1).\<close>

definition resolve :: "'raw tool_descriptor list \<Rightarrow> string \<Rightarrow> 'raw tool_descriptor option" where
  "resolve registry nm = find (\<lambda>t. td_name t = nm) registry"

text \<open>
  Modelled from the spec: step 6 and step 7 of section 4.2, the \<open>try\<close>/\<open>catch\<close> of
  \<open>tool.ts\<close> around a tool body. The body is entered (which is recorded), its result is
  passed through unchanged, and an error it raises goes to the tool's \<open>handleError\<close>. A
  \<open>handleError\<close> that raises itself gives the defensive \<open>InternalError\<close>, so that
  nothing escapes to the transport.
\<close>

definition run_bound ::
  "string \<Rightarrow> 'a bound_call_scheme \<Rightarrow> world \<Rightarrow> protocol_result \<times> world" where
  "run_bound nm bc w =
     (case bc_execute bc (w\<lparr> invoked := invoked w @ [nm] \<rparr>) of
        (Inr r, w') \<Rightarrow> (ToolResult r, w')
      | (Inl e, w') \<Rightarrow>
          (case bc_handleError bc e of
             Inr pr \<Rightarrow> (pr, w')
           | Inl e' \<Rightarrow> (ErrorResult InternalError [], w')))"

text \<open>
  Modelled from the spec: steps 4 to 7 of section 4.2, in the pipeline of \<open>tool.ts\<close>,
  which is not among the sources. Step 4 ensures that the Session's provider is
  connected; a connection failure is the error result of kind \<open>BackendUnavailable\<close>.
  Step 5 resolves the effective database from the database the call specifies and the
  Session's default; if neither is present, the error result is of kind
  \<open>DatabaseNotSpecified\<close>. Only then is the execute function invoked (steps 6 and 7).
  The execute functions of the sources take the validated arguments only, and call
  \<open>ensureConnected\<close> and \<open>getEffectiveDatabase\<close> again as their first two statements.
\<close>

definition serve_call ::
  "env \<Rightarrow> string \<Rightarrow> validated_call \<Rightarrow> world \<Rightarrow> protocol_result \<times> world" where
  "serve_call en nm vc w =
     (case ensureConnected en w of
        (Inl e, w1) \<Rightarrow> (ErrorResult BackendUnavailable [], w1)
      | (Inr u, w1) \<Rightarrow>
          (case getEffectiveDatabase en (requested_database vc) of
             Inl e \<Rightarrow> (ErrorResult DatabaseNotSpecified [], w1)
           | Inr effectiveDatabase \<Rightarrow> run_bound nm vc w1))"

text \<open>
  Modelled from the spec: the execution pipeline of \<open>tool.ts\<close> (the callback the tool base
  class registers), which is not among the sources. Section 4.2: step 1 resolves the
  tool, step 2 validates the arguments, step 3 enforces the read-only policy, and steps
  4 to 7 follow, on the Session \<open>en\<close>.
\<close>

definition callTool ::
  "user_config \<Rightarrow> env \<Rightarrow> 'raw tool_descriptor list \<Rightarrow> string \<Rightarrow> 'raw \<Rightarrow> world
     \<Rightarrow> protocol_result \<times> world" where
  "callTool cfg en registry nm raw w =
     (case resolve registry nm of
        None \<Rightarrow> (ErrorResult UnknownTool [], w)
      | Some t \<Rightarrow>
          (case td_bind t raw of
             Inl msgs \<Rightarrow> (ErrorResult InvalidArguments msgs, w)
           | Inr vc \<Rightarrow>
               if readOnly cfg \<and> td_category t \<noteq> Read \<and> td_category t \<noteq> Metadata
               then (ErrorResult OperationNotPermitted [], w)
               else serve_call en (td_name t) vc w))"

section \<open>Concurrent callers of one Session\<close>

text \<open>
  Modelled from the spec: the connect memoization of the Session (\<open>session.ts\<close> and
  \<open>ensureConnected\<close> of \<open>mongodbTool.ts\<close>, not among the sources; the tools only call
  \<open>await this.ensureConnected()\<close>). Section 3: the provider is disconnected, connecting
  or connected. Section 4.2 step 4: a caller that finds it disconnected starts the
  connect; a caller that finds a connect in flight awaits that same attempt. Section 5:
  callers interleave at suspension points only, so a caller's step up to its \<open>await\<close> is
  atomic, and so is the settling of the connect, which resumes every awaiting caller.
\<close>

datatype provider_state = Disconnected | Connecting | Connected nat

text \<open>
  A tool call with respect to the connection: not yet at \<open>ensureConnected\<close>, awaiting the
  connect in flight, holding the connected provider instance, or failed with the
  connection failure.
\<close>

datatype caller_state = Idle | Awaiting | Got nat | Failed

record conn_state =
  provider_st :: provider_state
  connect_attempts :: nat
  next_instance :: nat
  caller :: "nat \<Rightarrow> caller_state"

text \<open>
  \<open>Call i\<close>: tool call \<open>i\<close> reaches \<open>ensureConnected\<close>. \<open>Settle ok\<close>: the connect in flight
  completes, successfully or not.
\<close>

datatype conn_action = Call nat | Settle bool

fun conn_step :: "conn_state \<Rightarrow> conn_action \<Rightarrow> conn_state" where
  "conn_step st (Call i) =
     (if caller st i \<noteq> Idle then st
      else
        (case provider_st st of
           Connected p \<Rightarrow> st\<lparr> caller := (caller st)(i := Got p) \<rparr>
         | Connecting \<Rightarrow> st\<lparr> caller := (caller st)(i := Awaiting) \<rparr>
         | Disconnected \<Rightarrow>
             st\<lparr> provider_st := Connecting,
                 connect_attempts := connect_attempts st + 1,
                 caller := (caller st)(i := Awaiting) \<rparr>))"
| "conn_step st (Settle ok) =
     (case provider_st st of
        Connecting \<Rightarrow>
          if ok
          then st\<lparr> provider_st := Connected (next_instance st),
                   next_instance := next_instance st + 1,
                   caller := (\<lambda>j. if caller st j = Awaiting then Got (next_instance st)
                                   else caller st j) \<rparr>
          else st\<lparr> provider_st := Disconnected,
                   caller := (\<lambda>j. if caller st j = Awaiting then Failed else caller st j) \<rparr>
      | _ \<Rightarrow> st)"

definition conn_run :: "conn_action list \<Rightarrow> conn_state \<Rightarrow> conn_state" where
  "conn_run sched st = foldl conn_step st sched"

text \<open>A Session whose provider is disconnected, and no call under way.\<close>

definition conn0 :: conn_state where
  "conn0 = \<lparr> provider_st = Disconnected, connect_attempts = 0, next_instance = 0,
             caller = (\<lambda>_. Idle) \<rparr>"

text \<open>
  What holds in every schedule in which no connect fails: at most one connect attempt, and
  every caller that holds a provider holds the one the Session is connected to.
\<close>

definition conn_inv :: "conn_state \<Rightarrow> bool" where
  "conn_inv st =
     (case provider_st st of
        Disconnected \<Rightarrow> connect_attempts st = 0 \<and> (\<forall>k. caller st k = Idle)
      | Connecting \<Rightarrow>
          connect_attempts st = 1 \<and> (\<forall>k. caller st k = Idle \<or> caller st k = Awaiting)
      | Connected p \<Rightarrow>
          connect_attempts st = 1 \<and> (\<forall>k. caller st k = Idle \<or> caller st k = Got p))"

section \<open>A provider mock\<close>

text \<open>
  Concrete collaborators for running the definitions: a provider that answers every
  operation successfully, and library functions that know one document,
  \<open>{"_id": {"$oid": "65f0"}}\<close>, which \<open>EJSON.parse\<close> turns into an ObjectId.
\<close>

definition mock_provider :: provider where
  "mock_provider =
     \<lparr> p_insertMany = (\<lambda>db c docs. Inr \<lparr> insertedCount = length docs, insertedIds = [] \<rparr>),
       p_createCollection = (\<lambda>db c. Inr ()),
       p_dropDatabase = (\<lambda>db. Inr True),
       p_renameCollection = (\<lambda>db c n d. Inr n),
       p_find = (\<lambda>db c f opts. Inr []),
       p_find_explain = (\<lambda>db c f opts v. Inr JNull),
       p_aggregate = (\<lambda>db c p. Inr []),
       p_aggregate_explain = (\<lambda>db c p v. Inr JNull),
       p_command = (\<lambda>db c. Inr JNull),
       p_getIndexes = (\<lambda>db c. Inr []) \<rparr>"

definition oid_filter :: jsval where
  "oid_filter = JObj [(''_id'', JObj [(''$oid'', JStr ''65f0'')])]"

definition mock_lib :: js_lib where
  \<open>mock_lib =
     \<lparr> JSON_stringify = (\<lambda>v. if v = oid_filter then ''{"_id":{"$oid":"65f0"}}''
                              else if v = JArr [oid_filter] then ''[{"_id":{"$oid":"65f0"}}]''
                              else ''null''),
       EJSON_parse = (\<lambda>t. if t = ''{"_id":{"$oid":"65f0"}}''
                              then Inr (JObj [(''_id'', JObjectId ''65f0'')])
                            else if t = ''[{"_id":{"$oid":"65f0"}}]''
                              then Inr (JArr [JObj [(''_id'', JObjectId ''65f0'')]])
                            else Inr JNull),
       EJSON_stringify = (\<lambda>v. ''null'') \<rparr>\<close>

text \<open>A Session with the default database \<open>app\<close>, and one with none.\<close>

definition mock_env :: env where
  "mock_env = \<lparr> defaultDatabase = Some ''app'', connectFails = False,
                backend = mock_provider, lib = mock_lib \<rparr>"

definition mock_env_nodb :: env where
  "mock_env_nodb = mock_env\<lparr> defaultDatabase := None \<rparr>"

definition world0 :: world where
  "world0 = \<lparr> connected = False, connectAttempts = 0, calls = [], invoked = [] \<rparr>"

definition mock_config :: user_config where
  "mock_config = \<lparr> apiBaseUrl = None, apiClientId = None, apiClientSecret = None,
                   connectionString = Some ''mongodb://localhost'', readOnly = True,
                   disabledTools = [] \<rparr>"

definition insert_args0 :: InsertManyArgs where
  "insert_args0 = \<lparr> database = None, collection = ''users'', documents = [JObj []] \<rparr>"

definition rename_args0 :: RenameCollectionArgs where
  "rename_args0 = \<lparr> database = Some ''shop'', collection = ''users'', newName = ''people'',
                    dropTarget = False \<rparr>"

definition drop_args0 :: DatabaseArgs where
  "drop_args0 = \<lparr> database = Some ''shop'' \<rparr>"

definition find_args0 :: FindToolArgs where
  "find_args0 = \<lparr> database = None, collection = ''users'',
                  find_args = \<lparr> projection_arg = None, limit_arg = 0, sort_arg = None,
                                filter_arg = Some oid_filter \<rparr> \<rparr>"

definition create_args0 :: DbOperationArgs where
  "create_args0 = \<lparr> database = None, collection = ''users'' \<rparr>"

definition aggregate_args0 :: AggregateToolArgs where
  "aggregate_args0 = \<lparr> database = None, collection = ''users'',
                       aggregate_args = \<lparr> pipeline = [oid_filter] \<rparr> \<rparr>"

definition explain_args0 :: ExplainArgs where
  "explain_args0 = \<lparr> database = None, collection = ''users'',
                     method_arg = [CountMethod \<lparr> query = None \<rparr>,
                                   AggregateMethod \<lparr> pipeline = [] \<rparr>] \<rparr>"

text \<open>A registry over calls that carry no raw arguments: each schema yields fixed ones.\<close>

definition mock_registry :: "env \<Rightarrow> unit tool_descriptor list" where
  "mock_registry en =
     [ InsertManyTool en (\<lambda>_. Inr insert_args0),
       RenameCollectionTool en (\<lambda>_. Inr rename_args0),
       DropDatabaseTool en (\<lambda>_. Inr drop_args0),
       CreateCollectionTool en (\<lambda>_. Inr create_args0),
       FindTool en (\<lambda>_. Inr find_args0),
       AggregateTool en (\<lambda>_. Inr aggregate_args0),
       ExplainTool en (\<lambda>_. Inr explain_args0) ]"

text \<open>A provider on which every rename fails because the target namespace exists.\<close>

definition mock_env_exists :: env where
  "mock_env_exists =
     mock_env\<lparr> backend := mock_provider\<lparr> p_renameCollection :=
       (\<lambda>db c n d. Inl (JsError ''target namespace exists'' (Some ''NamespaceExists''))) \<rparr> \<rparr>"

text \<open>A provider on which every rename fails with an error no translator knows.\<close>

definition mock_env_unauthorized :: env where
  "mock_env_unauthorized =
     mock_env\<lparr> backend := mock_provider\<lparr> p_renameCollection :=
       (\<lambda>db c n d. Inl (JsError ''not authorized on shop'' (Some ''Unauthorized''))) \<rparr> \<rparr>"

section \<open>The HTTP entry points\<close>

text \<open>
  \<open>Session\<close>, \<open>McpServer\<close>, \<open>Telemetry\<close>, \<open>Server\<close> and the transports are classes the
  entry points import and construct. What matters here is which object is which: every
  \<open>new\<close> yields an object with a fresh identity, a number taken from a counter. A
  \<open>Server\<close> holds the Session, the protocol server and the telemetry it was built from.
\<close>

record server_obj =
  srv_id :: nat
  srv_session :: nat
  srv_mcpServer :: nat
  srv_telemetry :: nat

text \<open>
  The four constructions that every entry point performs in this order:
  \<open>new Session\<close>, \<open>new McpServer\<close>, \<open>Telemetry.create\<close>, \<open>new Server\<close>.
\<close>

definition new_Server :: "nat \<Rightarrow> server_obj \<times> nat" where
  "new_Server n =
     (\<lparr> srv_id = n + 3, srv_session = n, srv_mcpServer = n + 1, srv_telemetry = n + 2 \<rparr>,
      n + 4)"

datatype log_level = Info | Error | Emergency

datatype log_id =
    ServerInitialized
  | ServerStartFailure
  | ServerCloseRequested
  | ServerClosed
  | ServerCloseFailure

text \<open>
  What the process does to the outside, in order: a \<open>logger\<close> line (level and \<open>LogId\<close>;
  the message text is left out), a response, \<open>server.connect(transport)\<close> (with the
  Server it is called on and the transport's identity),
  \<open>server.close()\<close>, \<open>transport.handleRequest\<close>, \<open>transport.close()\<close>,
  \<open>httpServer.close\<close>, \<open>process.exit\<close>. The \<open>console.log\<close> lines are left out.
\<close>

datatype event =
    Log log_level log_id
  | WriteHead nat
  | Respond nat
  | ServerConnect server_obj nat
  | ServerClose nat
  | HandleRequest nat
  | TransportClose nat
  | HttpServerClose
  | ProcessExit nat

text \<open>
  The module state of \<open>part_003\<close> and \<open>part_004\<close> (\<open>globalServer\<close>,
  \<open>isServerInitialized\<close>), the object counter, the open client connections with the
  \<open>Server\<close> their \<open>close\<close> and \<open>error\<close> listeners hold, and the events so far.
\<close>

record proc =
  nextId :: nat
  globalServer :: "server_obj option"
  isServerInitialized :: bool
  connections :: "(nat \<times> server_obj) list"
  events :: "event list"

definition proc0 :: proc where
  "proc0 = \<lparr> nextId = 0, globalServer = None, isServerInitialized = False,
             connections = [], events = [] \<rparr>"

definition emit :: "event list \<Rightarrow> proc \<Rightarrow> proc" where
  "emit es st = st\<lparr> events := events st @ es \<rparr>"

text \<open>
  \<open>initializeGlobalServer\<close> (\<open>part_003\<close>, \<open>part_004\<close>). The flag says whether
  \<open>server.validateConfiguration()\<close> succeeds; the result says whether the function
  returned (\<open>True\<close>) or threw.
\<close>

definition initializeGlobalServer :: "bool \<Rightarrow> proc \<Rightarrow> bool \<times> proc" where
  "initializeGlobalServer validate_ok st =
     (if isServerInitialized st \<and> globalServer st \<noteq> None then (True, st)
      else
        (let (server, n) = new_Server (nextId st) in
         if validate_ok
         then (True, emit [Log Info ServerInitialized]
                       (st\<lparr> nextId := n, globalServer := Some server,
                           isServerInitialized := True \<rparr>))
         else (False, emit [Log Error ServerStartFailure] (st\<lparr> nextId := n \<rparr>))))"

text \<open>
  \<open>startHttpServer\<close> up to the registration of the handlers (\<open>part_003\<close>, \<open>part_004\<close>):
  when the initialization throws, the outer \<open>catch\<close> logs and exits with status 1.
\<close>

definition startHttpServer :: "bool \<Rightarrow> proc" where
  "startHttpServer validate_ok =
     (case initializeGlobalServer validate_ok proc0 of
        (True, st) \<Rightarrow> emit [Log Info ServerInitialized] st
      | (False, st) \<Rightarrow> emit [Log Emergency ServerStartFailure, ProcessExit 1] st)"

subsection \<open>The event-stream entry point (\<open>part_003\<close>)\<close>

text \<open>
  \<open>app.get('/sse')\<close>. The flag says whether \<open>server.connect(transport)\<close> succeeds; it is
  called after the handler has written the response headers itself, and whether the
  transport can still start then is decided in the SDK, outside the sources. The
  transport is constructed first, then a new Session, protocol server, telemetry and
  Server for this connection. When the connect throws, the listeners are not registered,
  and no 500 is sent because the headers are already written.
\<close>

definition sse_get :: "bool \<Rightarrow> proc \<Rightarrow> proc" where
  "sse_get connect_ok st =
     (if globalServer st = None \<or> \<not> isServerInitialized st
      then emit [Log Error ServerStartFailure, Respond 500] st
      else
        (let transport = nextId st;
             (server, n) = new_Server (transport + 1);
             st1 = emit [Log Info ServerInitialized, WriteHead 200,
                         ServerConnect server transport] (st\<lparr> nextId := n \<rparr>)
         in if connect_ok
            then emit [Log Info ServerInitialized]
                   (st1\<lparr> connections := connections st1 @ [(transport, server)] \<rparr>)
            else emit [Log Error ServerStartFailure] st1))"

text \<open>
  \<open>req.on('close')\<close> of connection \<open>c\<close>: the listener closes the Server it holds; the
  flag says whether \<open>server.close()\<close> succeeds. The request is closed afterwards.
\<close>

definition sse_req_close :: "nat \<Rightarrow> bool \<Rightarrow> proc \<Rightarrow> proc" where
  "sse_req_close c close_ok st =
     (case map_of (connections st) c of
        None \<Rightarrow> st
      | Some server \<Rightarrow>
          emit ([Log Info ServerClosed, ServerClose (srv_id server)]
                @ (if close_ok then [] else [Log Error ServerCloseFailure]))
            (st\<lparr> connections := filter (\<lambda>p. fst p \<noteq> c) (connections st) \<rparr>))"

text \<open>\<open>req.on('error')\<close> of connection \<open>c\<close>.\<close>

definition sse_req_error :: "nat \<Rightarrow> bool \<Rightarrow> proc \<Rightarrow> proc" where
  "sse_req_error c close_ok st =
     (case map_of (connections st) c of
        None \<Rightarrow> st
      | Some server \<Rightarrow>
          emit ([Log Error ServerStartFailure, ServerClose (srv_id server)]
                @ (if close_ok then [] else [Log Error ServerCloseFailure])) st)"

text \<open>What clients do to the running event-stream process.\<close>

datatype sse_input = GetSse bool | ReqClose nat bool | ReqError nat bool

fun sse_step :: "proc \<Rightarrow> sse_input \<Rightarrow> proc" where
  "sse_step st (GetSse connect_ok) = sse_get connect_ok st"
| "sse_step st (ReqClose c close_ok) = sse_req_close c close_ok st"
| "sse_step st (ReqError c close_ok) = sse_req_error c close_ok st"

definition sse_run :: "sse_input list \<Rightarrow> proc \<Rightarrow> proc" where
  "sse_run inputs st = foldl sse_step st inputs"

text \<open>
  \<open>shutdown\<close> (\<open>part_003\<close> and \<open>part_004\<close>, the same text). \<open>close_ok\<close> says whether
  \<open>globalServer.close()\<close> succeeds; \<open>http_closed\<close> says whether the HTTP server finishes
  closing, and its callback logs, while the close of the global server is awaited.
\<close>

definition shutdown :: "bool \<Rightarrow> bool \<Rightarrow> proc \<Rightarrow> proc" where
  "shutdown close_ok http_closed st =
     (let st1 = emit [Log Info ServerCloseRequested, HttpServerClose] st;
          cb = (if http_closed then [Log Info ServerClosed] else [])
      in case globalServer st1 of
           None \<Rightarrow> emit [Log Info ServerClosed, ProcessExit 0] st1
         | Some g \<Rightarrow>
             if close_ok
             then emit ([ServerClose (srv_id g)] @ cb @ [Log Info ServerClosed, ProcessExit 0]) st1
             else emit ([ServerClose (srv_id g)] @ cb
                         @ [Log Error ServerCloseFailure, ProcessExit 1]) st1)"

subsection \<open>The streamable-HTTP entry point (\<open>part_004\<close>)\<close>

text \<open>
  The transport of one request: \<open>new StreamableHTTPServerTransport({ sessionIdGenerator:
  undefined })\<close>.
\<close>

record transport_obj =
  tr_id :: nat
  sessionIdGenerator :: "nat option"

text \<open>\<open>getServer\<close>: a new Session, protocol server, telemetry and Server.\<close>

definition getServer :: "proc \<Rightarrow> server_obj \<times> proc" where
  "getServer st = (let (server, n) = new_Server (nextId st) in (server, st\<lparr> nextId := n \<rparr>))"

text \<open>
  \<open>app.post('/mcp')\<close>. \<open>connect_ok\<close> and \<open>handle_ok\<close> say whether \<open>server.connect\<close> and
  \<open>transport.handleRequest\<close> succeed; a failure is answered with status 500 (for the
  connect, no header was sent yet; a failing \<open>handleRequest\<close> is taken to fail before it
  sends one). The \<open>close\<close> of the response, once it is sent, closes the transport. The
  handler's Server and transport are returned next to the state, to speak about them:
  the handler itself stores them nowhere.
\<close>

definition mcp_post :: "bool \<Rightarrow> bool \<Rightarrow> proc \<Rightarrow> (server_obj \<times> transport_obj) \<times> proc" where
  "mcp_post connect_ok handle_ok st =
     (let (server, st1) = getServer st;
          transport = \<lparr> tr_id = nextId st1, sessionIdGenerator = None \<rparr>;
          st2 = st1\<lparr> nextId := nextId st1 + 1 \<rparr>;
          st3 = emit [ServerConnect server (tr_id transport)] st2
      in ((server, transport),
          (if \<not> connect_ok then emit [Respond 500, TransportClose (tr_id transport)] st3
           else if \<not> handle_ok
             then emit [HandleRequest (tr_id transport), Respond 500,
                        TransportClose (tr_id transport)] st3
           else emit [HandleRequest (tr_id transport), TransportClose (tr_id transport)] st3)))"

subsection \<open>\<open>http-server.ts\<close>\<close>

text \<open>
  The state of \<open>http-server.ts\<close>: the one \<open>server\<close> of \<open>startHttpServer\<close>, which the
  handlers close over, and the transports connected to it.
\<close>

record http_proc =
  h_nextId :: nat
  h_server :: server_obj
  h_connections :: "(nat \<times> server_obj) list"
  h_events :: "event list"

definition h_emit :: "event list \<Rightarrow> http_proc \<Rightarrow> http_proc" where
  "h_emit es st = st\<lparr> h_events := h_events st @ es \<rparr>"

definition http_start :: http_proc where
  "http_start =
     (let (server, n) = new_Server 0
      in \<lparr> h_nextId = n, h_server = server, h_connections = [],
           h_events = [Log Info ServerInitialized] \<rparr>)"

text \<open>\<open>app.get('/sse')\<close>: a new transport, connected to the one \<open>server\<close>.\<close>

definition http_sse_get :: "bool \<Rightarrow> http_proc \<Rightarrow> http_proc" where
  "http_sse_get connect_ok st =
     (let transport = h_nextId st;
          st1 = h_emit [ServerConnect (h_server st) transport]
                  (st\<lparr> h_nextId := transport + 1 \<rparr>)
      in if connect_ok
         then h_emit [Log Info ServerInitialized]
                (st1\<lparr> h_connections := h_connections st1 @ [(transport, h_server st)] \<rparr>)
         else h_emit [Log Error ServerStartFailure, Respond 500] st1)"

definition http_run :: "bool list \<Rightarrow> http_proc \<Rightarrow> http_proc" where
  "http_run inputs st = foldl (\<lambda>s ok. http_sse_get ok s) st inputs"

datatype signal = SIGINT | SIGTERM

text \<open>The two signal handlers of \<open>http-server.ts\<close>, written out twice as in the source.\<close>

fun http_on_signal :: "signal \<Rightarrow> bool \<Rightarrow> bool \<Rightarrow> http_proc \<Rightarrow> http_proc" where
  "http_on_signal SIGINT close_ok http_closed st =
     h_emit ([Log Info ServerCloseRequested, HttpServerClose, ServerClose (srv_id (h_server st))]
             @ (if http_closed then [Log Info ServerClosed] else [])
             @ (if close_ok then [Log Info ServerClosed, ProcessExit 0]
                else [Log Error ServerCloseFailure, ProcessExit 1])) st"
| "http_on_signal SIGTERM close_ok http_closed st =
     h_emit ([Log Info ServerCloseRequested, HttpServerClose, ServerClose (srv_id (h_server st))]
             @ (if http_closed then [Log Info ServerClosed] else [])
             @ (if close_ok then [Log Info ServerClosed, ProcessExit 0]
                else [Log Error ServerCloseFailure, ProcessExit 1])) st"

text \<open>\<open>process.on(signal, ...)\<close> of \<open>part_003\<close> and \<open>part_004\<close>: both run \<open>shutdown\<close>.\<close>

definition on_signal :: "signal \<Rightarrow> bool \<Rightarrow> bool \<Rightarrow> proc \<Rightarrow> proc" where
  "on_signal sig close_ok http_closed st = shutdown close_ok http_closed st"

text \<open>Reading a trace.\<close>

fun is_exit :: "event \<Rightarrow> bool" where
  "is_exit (ProcessExit _) = True"
| "is_exit _ = False"

text \<open>The events up to the first \<open>process.exit\<close>.\<close>

definition before_exit :: "event list \<Rightarrow> event list" where
  "before_exit es = takeWhile (\<lambda>e. \<not> is_exit e) es"

text \<open>The requests served by the running streamable-HTTP process, one after the other.\<close>

definition mcp_run :: "(bool \<times> bool) list \<Rightarrow> proc \<Rightarrow> proc" where
  "mcp_run reqs st = foldl (\<lambda>s r. snd (mcp_post (fst r) (snd r) s)) st reqs"

text \<open>
  A trace in which the process asks its HTTP server to stop accepting connections, then
  asks the Server \<open>g\<close> to close, and only then exits, as its last step.
\<close>

definition closes_before_exit :: "nat \<Rightarrow> event list \<Rightarrow> bool" where
  "closes_before_exit g es =
     (HttpServerClose \<in> set (takeWhile (\<lambda>e. e \<noteq> ServerClose g) es)
      \<and> ServerClose g \<in> set (before_exit es)
      \<and> es \<noteq> [] \<and> is_exit (last es))"

text \<open>
  What holds of the module state while the process of \<open>part_003\<close> or \<open>part_004\<close> serves:
  the global Server is set and initialized, every object in the state is older than the
  counter, the Server of each open connection is another object than the global one, with
  another Session, and no two connections share a transport or a Session; the process
  has not exited, nor closed its HTTP server or the global Server.
\<close>

definition proc_inv :: "proc \<Rightarrow> bool" where
  "proc_inv st =
     (case globalServer st of
        None \<Rightarrow> False
      | Some g \<Rightarrow>
          isServerInitialized st
          \<and> srv_id g < nextId st \<and> srv_session g < nextId st
          \<and> list_all (\<lambda>p. fst p < nextId st \<and> srv_id (snd p) < nextId st
                          \<and> srv_session (snd p) < nextId st
                          \<and> srv_id (snd p) \<noteq> srv_id g
                          \<and> srv_session (snd p) \<noteq> srv_session g) (connections st)
          \<and> distinct (map fst (connections st))
          \<and> distinct (map (\<lambda>p. srv_session (snd p)) (connections st))
          \<and> distinct (map (\<lambda>p. srv_id (snd p)) (connections st))
          \<and> list_all (\<lambda>e. \<not> is_exit e \<and> e \<noteq> ServerClose (srv_id g) \<and> e \<noteq> HttpServerClose)
               (events st))"

text \<open>
  What holds of \<open>http-server.ts\<close> while it serves: every connected transport is held with
  the one \<open>server\<close>, and no two connections share a transport.
\<close>

definition http_inv :: "http_proc \<Rightarrow> bool" where
  "http_inv st =
     (list_all (\<lambda>p. fst p < h_nextId st \<and> snd p = h_server st) (h_connections st)
      \<and> distinct (map fst (h_connections st)))"

section \<open>Theorems\<close>

lemma info_config_secrets:
  "info_config_of (cfg\<lparr> apiClientId := a, apiClientSecret := b, connectionString := c \<rparr>) =
     (info_config_of cfg)\<lparr> hasAtlasCredentials := (truthy_str a \<and> truthy_str b),
                             hasConnectionString := truthy_str c \<rparr>"
  by (simp add: info_config_of_def)

text \<open>
  C8. The info payload of each of the three entry points reports the read-only flag and the
  disabled tools as configured, and the credentials only as presence booleans. Replacing
  the secrets \<open>apiClientId\<close>, \<open>apiClientSecret\<close> and \<open>connectionString\<close> of any
  configuration by any other values changes nothing of the response but the two presence
  booleans, and these are the truthiness of the new values: no secret value is in the
  payload.
\<close>

theorem info_hides_secrets:
  "list_all (\<lambda>h.
      h pkg (cfg\<lparr> apiClientId := a, apiClientSecret := b, connectionString := c \<rparr>)
        = with_presence (truthy_str a \<and> truthy_str b) (truthy_str c) (h pkg cfg)
      \<and> info_readOnly (info_cfg (h pkg cfg)) = readOnly cfg
      \<and> info_disabledTools (info_cfg (h pkg cfg)) = disabledTools cfg
      \<and> hasAtlasCredentials (info_cfg (h pkg cfg))
          = (truthy_str (apiClientId cfg) \<and> truthy_str (apiClientSecret cfg))
      \<and> hasConnectionString (info_cfg (h pkg cfg)) = truthy_str (connectionString cfg))
    info_handlers"
  by (simp add: info_handlers_def info_http_def info_sse_def info_streamable_def
      with_presence_def info_config_secrets)
    (simp add: info_config_of_def)


subsection \<open>The read-only policy\<close>

lemmas tool_names =
  InsertManyTool_name_def CreateCollectionTool_name_def DropDatabaseTool_name_def
  RenameCollectionTool_name_def CollectionIndexesTool_name_def FindTool_name_def
  AggregateTool_name_def ExplainTool_name_def

lemmas tool_categories =
  InsertManyTool_operationType_def CreateCollectionTool_operationType_def
  DropDatabaseTool_operationType_def RenameCollectionTool_operationType_def
  CollectionIndexesTool_operationType_def FindTool_operationType_def
  AggregateTool_operationType_def ExplainTool_operationType_def

lemmas tool_descriptors =
  InsertManyTool_def CreateCollectionTool_def DropDatabaseTool_def RenameCollectionTool_def
  CollectionIndexesTool_def FindTool_def AggregateTool_def ExplainTool_def

lemmas io_defs = bind_def ret_def throw_def lift_def issue_def

lemma mk_tool_simps [simp]:
  "td_name (mk_tool nm cat schema rq ex he) = nm"
  "td_category (mk_tool nm cat schema rq ex he) = cat"
  "td_bind (mk_tool nm cat schema rq ex he) raw =
     (case schema raw of
        Inl msgs \<Rightarrow> Inl msgs
      | Inr a \<Rightarrow> Inr \<lparr> bc_execute = ex a, bc_handleError = (\<lambda>e. he e a),
                      requested_database = rq a \<rparr>)"
  by (simp_all add: mk_tool_def)

text \<open>
  C1. In a read-only configuration, a call that resolves to a tool of category create,
  update or delete and passes validation returns the error result of kind
  \<open>OperationNotPermitted\<close> and leaves the state as it was: no connect attempt, no
  operation on the provider, the execute function not entered. A tool of category read or
  metadata goes on to the remaining steps of the pipeline, as it does without the flag.
  The insert-many, rename-collection and drop-database tools are of category create,
  update and delete.
\<close>

theorem read_only_policy:
  assumes "resolve registry nm = Some t"
    and "td_bind t raw = Inr vc"
    and "readOnly cfg"
  shows "(td_category t \<in> {Create, Update, Delete} \<longrightarrow>
            callTool cfg en registry nm raw w = (ErrorResult OperationNotPermitted [], w))
       \<and> (td_category t \<in> {Read, Metadata} \<longrightarrow>
            callTool cfg en registry nm raw w = serve_call en (td_name t) vc w
            \<and> callTool cfg en registry nm raw w
                = callTool (cfg\<lparr> readOnly := False \<rparr>) en registry nm raw w)
       \<and> td_category (InsertManyTool en s1) = Create
       \<and> td_category (RenameCollectionTool en s2) = Update
       \<and> td_category (DropDatabaseTool en s3) = Delete"
proof -
  have refused: "td_category t \<in> {Create, Update, Delete} \<Longrightarrow>
      callTool cfg en registry nm raw w = (ErrorResult OperationNotPermitted [], w)"
    using assms by (auto simp: callTool_def)
  have pass: "td_category t \<in> {Read, Metadata} \<Longrightarrow>
      callTool cfg' en registry nm raw w = serve_call en (td_name t) vc w" for cfg'
    using assms(1,2) by (auto simp: callTool_def)
  have cats: "td_category (InsertManyTool en s1) = Create"
    "td_category (RenameCollectionTool en s2) = Update"
    "td_category (DropDatabaseTool en s3) = Delete"
    by (simp_all add: tool_descriptors tool_categories)
  from refused pass cats show ?thesis by simp
qed

theorem read_only_policy_witness:
  "callTool mock_config mock_env (mock_registry mock_env) ''insert-many'' () world0
     = (ErrorResult OperationNotPermitted [], world0)
   \<and> callTool mock_config mock_env (mock_registry mock_env) ''drop-database'' () world0
     = (ErrorResult OperationNotPermitted [], world0)
   \<and> callTool mock_config mock_env (mock_registry mock_env) ''find'' () world0
     = serve_call mock_env ''find''
         \<lparr> bc_execute = FindTool_execute mock_env find_args0,
           bc_handleError = super_handleError,
           requested_database = None \<rparr> world0
   \<and> readOnly mock_config"
proof -
  have ro: "readOnly mock_config"
    by (simp add: mock_config_def)
  have r1: "resolve (mock_registry mock_env) ''insert-many''
              = Some (InsertManyTool mock_env (\<lambda>_. Inr insert_args0))"
    by (simp add: resolve_def mock_registry_def tool_descriptors tool_names)
  have b1: "td_bind (InsertManyTool mock_env (\<lambda>_. Inr insert_args0)) ()
              = Inr \<lparr> bc_execute = InsertManyTool_execute mock_env insert_args0,
                      bc_handleError = super_handleError,
                      requested_database = database insert_args0 \<rparr>"
    by (simp add: tool_descriptors)
  have r2: "resolve (mock_registry mock_env) ''drop-database''
              = Some (DropDatabaseTool mock_env (\<lambda>_. Inr drop_args0))"
    by (simp add: resolve_def mock_registry_def tool_descriptors tool_names)
  have b2: "td_bind (DropDatabaseTool mock_env (\<lambda>_. Inr drop_args0)) ()
              = Inr \<lparr> bc_execute = DropDatabaseTool_execute mock_env drop_args0,
                      bc_handleError = super_handleError,
                      requested_database = database drop_args0 \<rparr>"
    by (simp add: tool_descriptors)
  have r3: "resolve (mock_registry mock_env) ''find''
              = Some (FindTool mock_env (\<lambda>_. Inr find_args0))"
    by (simp add: resolve_def mock_registry_def tool_descriptors tool_names)
  have b3: "td_bind (FindTool mock_env (\<lambda>_. Inr find_args0)) ()
              = Inr \<lparr> bc_execute = FindTool_execute mock_env find_args0,
                      bc_handleError = super_handleError,
                      requested_database = database find_args0 \<rparr>"
    by (simp add: tool_descriptors)
  show ?thesis
    using read_only_policy [OF r1 b1 ro, of mock_env world0]
      read_only_policy [OF r2 b2 ro, of mock_env world0]
      read_only_policy [OF r3 b3 ro, of mock_env world0] ro
    by (simp add: tool_descriptors tool_categories tool_names find_args0_def)
qed

subsection \<open>The first two statements of every tool body\<close>

lemma ensureConnected_calls [simp]: "calls (snd (ensureConnected en w)) = calls w"
  by (simp add: ensureConnected_def)

lemma ensureConnected_invoked [simp]: "invoked (snd (ensureConnected en w)) = invoked w"
  by (simp add: ensureConnected_def)

lemma ensureConnected_ok:
  "connected w \<or> \<not> connectFails en \<Longrightarrow> fst (ensureConnected en w) = Inr ()"
  by (auto simp: ensureConnected_def)

lemma ensureConnected_fails:
  "\<not> connected w \<Longrightarrow> connectFails en \<Longrightarrow> fst (ensureConnected en w) = Inl ErrBackendUnavailable"
  by (simp add: ensureConnected_def)

lemma body_resolution_fails:
  assumes "connected w \<or> \<not> connectFails en"
    and "getEffectiveDatabase en d = Inl e"
  shows "bind (ensureConnected en) (\<lambda>_. bind (lift (getEffectiveDatabase en d)) k) w
           = (Inl e, snd (ensureConnected en w))"
  using assms by (auto simp: io_defs ensureConnected_def)

lemma body_resolution_ok:
  assumes "connected w \<or> \<not> connectFails en"
    and "getEffectiveDatabase en d = Inr db"
  shows "bind (ensureConnected en) (\<lambda>_. bind (lift (getEffectiveDatabase en d)) k) w
           = k db (snd (ensureConnected en w))"
  using assms by (auto simp: io_defs ensureConnected_def)

lemma body_connect_fails:
  assumes "\<not> connected w" and "connectFails en"
  shows "bind (ensureConnected en) k w
           = (Inl ErrBackendUnavailable, w\<lparr> connectAttempts := connectAttempts w + 1 \<rparr>)"
  using assms by (simp add: io_defs ensureConnected_def)

lemma no_database_resolution:
  "d = None \<or> d = Some [] \<Longrightarrow> defaultDatabase en = None
     \<Longrightarrow> getEffectiveDatabase en d = Inl ErrDatabaseNotSpecified"
  by (auto simp: getEffectiveDatabase_def)

lemma ensureConnected_connected:
  "connected w \<or> \<not> connectFails en \<Longrightarrow> connected (snd (ensureConnected en w))"
  by (auto simp: ensureConnected_def)

lemma serve_call_ok:
  assumes "connected w \<or> \<not> connectFails en"
    and "getEffectiveDatabase en (requested_database vc) = Inr db"
  shows "serve_call en nm vc w = run_bound nm vc (snd (ensureConnected en w))"
  using assms by (auto simp: serve_call_def ensureConnected_def)

lemma serve_call_no_database:
  assumes "connected w \<or> \<not> connectFails en"
    and "getEffectiveDatabase en (requested_database vc) = Inl e"
  shows "serve_call en nm vc w = (ErrorResult DatabaseNotSpecified [], snd (ensureConnected en w))"
  using assms by (auto simp: serve_call_def ensureConnected_def)

subsection \<open>Effective-database resolution\<close>

text \<open>
  C4. A call that reaches step 5 of the pipeline (its tool resolves, its arguments pass
  validation, the read-only policy does not refuse it, the connection is available),
  that specifies no database (none, or the empty string), on a Session with no default
  database, returns the error result of kind \<open>DatabaseNotSpecified\<close>, and the execute
  function of its tool is not invoked: the record of entered execute functions and the
  operations issued on the provider are as before, and the result is the same whatever
  the execute function of the tool is. For the find and create-collection tools of the
  sources, the database a call specifies is the \<open>database\<close> of its arguments.
\<close>

theorem database_resolved_before_execute:
  assumes "resolve registry nm = Some t"
    and "td_bind t raw = Inr vc"
    and "\<not> readOnly cfg \<or> td_category t = Read \<or> td_category t = Metadata"
    and "connected w \<or> \<not> connectFails en"
    and "requested_database vc = None \<or> requested_database vc = Some []"
    and "defaultDatabase en = None"
  shows "callTool cfg en registry nm raw w
           = (ErrorResult DatabaseNotSpecified [], snd (ensureConnected en w))
       \<and> invoked (snd (callTool cfg en registry nm raw w)) = invoked w
       \<and> calls (snd (callTool cfg en registry nm raw w)) = calls w
       \<and> serve_call en (td_name t) (vc\<lparr> bc_execute := ex \<rparr>) w
           = (ErrorResult DatabaseNotSpecified [], snd (ensureConnected en w))
       \<and> map_sum id requested_database (td_bind (FindTool en (\<lambda>_. Inr fa)) raw)
           = Inr (database fa)
       \<and> map_sum id requested_database (td_bind (CreateCollectionTool en (\<lambda>_. Inr ca)) raw)
           = Inr (database ca)"
proof -
  have nodb: "getEffectiveDatabase en (requested_database vc) = Inl ErrDatabaseNotSpecified"
    using assms(5,6) by (rule no_database_resolution)
  have nodb': "getEffectiveDatabase en (requested_database (vc\<lparr> bc_execute := ex \<rparr>))
                 = Inl ErrDatabaseNotSpecified"
    using nodb by simp
  have served: "callTool cfg en registry nm raw w = serve_call en (td_name t) vc w"
    using assms(1,2,3) by (auto simp: callTool_def)
  have res: "callTool cfg en registry nm raw w
               = (ErrorResult DatabaseNotSpecified [], snd (ensureConnected en w))"
    unfolding served by (rule serve_call_no_database [OF assms(4) nodb])
  have any: "serve_call en (td_name t) (vc\<lparr> bc_execute := ex \<rparr>) w
               = (ErrorResult DatabaseNotSpecified [], snd (ensureConnected en w))"
    by (rule serve_call_no_database [OF assms(4) nodb'])
  have f: "map_sum id requested_database (td_bind (FindTool en (\<lambda>_. Inr fa)) raw)
             = Inr (database fa)"
    by (simp add: FindTool_def)
  have c: "map_sum id requested_database (td_bind (CreateCollectionTool en (\<lambda>_. Inr ca)) raw)
             = Inr (database ca)"
    by (simp add: CreateCollectionTool_def)
  from res any f c show ?thesis by simp
qed

theorem database_resolved_before_execute_witness:
  "callTool (mock_config\<lparr> readOnly := False \<rparr>) mock_env_nodb (mock_registry mock_env_nodb)
     ''find'' () world0
     = (ErrorResult DatabaseNotSpecified [],
        \<lparr> connected = True, connectAttempts = 1, calls = [], invoked = [] \<rparr>)
   \<and> callTool (mock_config\<lparr> readOnly := False \<rparr>) mock_env_nodb (mock_registry mock_env_nodb)
        ''create-collection'' () world0
     = (ErrorResult DatabaseNotSpecified [],
        \<lparr> connected = True, connectAttempts = 1, calls = [], invoked = [] \<rparr>)"
proof -
  have h1: "resolve (mock_registry mock_env_nodb) ''find''
              = Some (FindTool mock_env_nodb (\<lambda>_. Inr find_args0))"
    by (simp add: resolve_def mock_registry_def tool_descriptors tool_names)
  have b1: "td_bind (FindTool mock_env_nodb (\<lambda>_. Inr find_args0)) ()
              = Inr \<lparr> bc_execute = FindTool_execute mock_env_nodb find_args0,
                      bc_handleError = super_handleError,
                      requested_database = None \<rparr>"
    by (simp add: tool_descriptors find_args0_def)
  have h2: "resolve (mock_registry mock_env_nodb) ''create-collection''
              = Some (CreateCollectionTool mock_env_nodb (\<lambda>_. Inr create_args0))"
    by (simp add: resolve_def mock_registry_def tool_descriptors tool_names)
  have b2: "td_bind (CreateCollectionTool mock_env_nodb (\<lambda>_. Inr create_args0)) ()
              = Inr \<lparr> bc_execute = CreateCollectionTool_execute mock_env_nodb create_args0,
                      bc_handleError = super_handleError,
                      requested_database = None \<rparr>"
    by (simp add: tool_descriptors create_args0_def)
  have ro: "\<not> readOnly (mock_config\<lparr> readOnly := False \<rparr>) \<or> x = Read \<or> x = Metadata" for x
    by simp
  have cn: "connected world0 \<or> \<not> connectFails mock_env_nodb"
    by (simp add: mock_env_nodb_def mock_env_def)
  have nd: "defaultDatabase mock_env_nodb = None"
    by (simp add: mock_env_nodb_def)
  show ?thesis
    using database_resolved_before_execute [OF h1 b1 ro cn _ nd]
      database_resolved_before_execute [OF h2 b2 ro cn _ nd]
    by (simp add: ensureConnected_def world0_def mock_env_nodb_def mock_env_def)
qed

subsection \<open>Error translation\<close>

lemma rename_handleError_exists:
  assumes "getEffectiveDatabase en (database a) = Inr db"
  shows \<open>RenameCollectionTool_handleError en (JsError m (Some ''NamespaceExists'')) a
           = Inr (ToolResult [TextBlock (''Cannot rename "'' @ db @ ''.'' @ collection a
                   @ ''" to "'' @ newName a
                   @ ''" because the target collection already exists. If you want to overwrite it, set the "dropTarget" argument to true.'')])\<close>
  using assms by (simp add: RenameCollectionTool_handleError_def)

lemma rename_handleError_fallback:
  assumes "getEffectiveDatabase en (database a) = Inr db"
    and "codeNameOf e \<noteq> Some ''NamespaceNotFound''"
    and "codeNameOf e \<noteq> Some ''NamespaceExists''"
  shows "RenameCollectionTool_handleError en e a = super_handleError e"
  using assms by (simp add: RenameCollectionTool_handleError_def)

lemma indexes_handleError_fallback:
  assumes "codeNameOf e \<noteq> Some ''NamespaceNotFound''"
  shows "CollectionIndexesTool_handleError en e a = super_handleError e"
  using assms by (simp add: CollectionIndexesTool_handleError_def)

lemma rename_execute_raises:
  assumes "connected w \<or> \<not> connectFails en"
    and "getEffectiveDatabase en (database a) = Inr db"
    and "p_renameCollection (backend en) db (collection a) (newName a) (dropTarget a) = Inl e"
  shows "RenameCollectionTool_execute en a w
           = (Inl e, (snd (ensureConnected en w))
                \<lparr> calls := calls w @ [RenameCollection db (collection a) (newName a)
                                        (dropTarget a)] \<rparr>)"
  unfolding RenameCollectionTool_execute_def
  using assms(3) by (simp add: body_resolution_ok [OF assms(1,2)]) (simp add: io_defs)

text \<open>
  C5. When the provider's rename raises inside the execute function of rename-collection
  (so the connection and the effective database were available), the call gives: for an
  error with \<open>codeName\<close> \<open>NamespaceExists\<close>, the one text block of the tool's translator,
  which is built from the effective database, the collection and the literal target name
  only (the raised error and its message are not in it), and which advises to set
  \<open>dropTarget\<close> to true; for an \<open>Error\<close> whose \<open>codeName\<close> the translator does not know,
  and for a thrown value that is no \<open>Error\<close>, the generic error result of kind
  \<open>ExecutionFailed\<close> with the original message. The translator of collection-indexes
  likewise hands every error but \<open>NamespaceNotFound\<close> to the generic handler.
\<close>

theorem rename_error_translation:
  assumes "resolve registry nm = Some (RenameCollectionTool en schema)"
    and "schema raw = Inr a"
    and "\<not> readOnly cfg"
    and "connected w \<or> \<not> connectFails en"
    and "getEffectiveDatabase en (database a) = Inr db"
    and "p_renameCollection (backend en) db (collection a) (newName a) (dropTarget a) = Inl e"
  shows \<open>(e = JsError m (Some ''NamespaceExists'') \<longrightarrow>
            fst (callTool cfg en registry nm raw w)
              = ToolResult [TextBlock (''Cannot rename "'' @ db @ ''.'' @ collection a
                   @ ''" to "'' @ newName a
                   @ ''" because the target collection already exists. If you want to overwrite it, set the "dropTarget" argument to true.'')]
            \<and> sublist (newName a) (''Cannot rename "'' @ db @ ''.'' @ collection a
                   @ ''" to "'' @ newName a
                   @ ''" because the target collection already exists. If you want to overwrite it, set the "dropTarget" argument to true.'')
            \<and> sublist ''set the "dropTarget" argument to true'' (''Cannot rename "'' @ db
                   @ ''.'' @ collection a @ ''" to "'' @ newName a
                   @ ''" because the target collection already exists. If you want to overwrite it, set the "dropTarget" argument to true.''))
       \<and> (e = JsError m c \<and> c \<noteq> Some ''NamespaceNotFound'' \<and> c \<noteq> Some ''NamespaceExists'' \<longrightarrow>
            fst (callTool cfg en registry nm raw w) = ErrorResult ExecutionFailed [m])
       \<and> (e = ThrownValue m \<longrightarrow>
            fst (callTool cfg en registry nm raw w) = ErrorResult ExecutionFailed [m])
       \<and> (codeNameOf e \<noteq> Some ''NamespaceNotFound'' \<longrightarrow>
            CollectionIndexesTool_handleError en e ia = super_handleError e)\<close>
proof -
  let ?vc = "\<lparr> bc_execute = RenameCollectionTool_execute en a,
               bc_handleError = (\<lambda>e. RenameCollectionTool_handleError en e a),
               requested_database = database a \<rparr>"
  let ?w1 = "snd (ensureConnected en w)"
  let ?w = "?w1\<lparr> invoked := invoked ?w1 @ [''rename-collection''] \<rparr>"
  have conn: "connected ?w \<or> \<not> connectFails en"
    using ensureConnected_connected [OF assms(4)] by simp
  have db: "getEffectiveDatabase en (requested_database ?vc) = Inr db"
    using assms(5) by simp
  have served: "callTool cfg en registry nm raw w = run_bound ''rename-collection'' ?vc ?w1"
    using assms(1,2,3) serve_call_ok [OF assms(4) db, of "''rename-collection''"]
    by (simp add: callTool_def RenameCollectionTool_def tool_names)
  have call: "fst (callTool cfg en registry nm raw w)
                = (case RenameCollectionTool_handleError en e a of
                     Inr pr \<Rightarrow> pr | Inl e' \<Rightarrow> ErrorResult InternalError [])"
    unfolding served using rename_execute_raises [OF conn assms(5,6)]
    by (simp add: run_bound_def split: sum.splits)
  have s1: \<open>sublist (newName a) ((''Cannot rename "'' @ db @ ''.'' @ collection a @ ''" to "'')
              @ newName a
              @ ''" because the target collection already exists. If you want to overwrite it, set the "dropTarget" argument to true.'')\<close>
    by (rule sublist_appendI)
  have s2: \<open>sublist ''set the "dropTarget" argument to true''
              ((''Cannot rename "'' @ db @ ''.'' @ collection a @ ''" to "'' @ newName a
                  @ ''" because the target collection already exists. If you want to overwrite it, '')
               @ ''set the "dropTarget" argument to true'' @ ''.'')\<close>
    by (rule sublist_appendI)
  have exists: \<open>e = JsError m (Some ''NamespaceExists'') \<Longrightarrow>
      fst (callTool cfg en registry nm raw w)
        = ToolResult [TextBlock (''Cannot rename "'' @ db @ ''.'' @ collection a
             @ ''" to "'' @ newName a
             @ ''" because the target collection already exists. If you want to overwrite it, set the "dropTarget" argument to true.'')]\<close>
    using call rename_handleError_exists [OF assms(5), of m] by simp
  have other: "e = JsError m c \<Longrightarrow> c \<noteq> Some ''NamespaceNotFound''
      \<Longrightarrow> c \<noteq> Some ''NamespaceExists''
      \<Longrightarrow> fst (callTool cfg en registry nm raw w) = ErrorResult ExecutionFailed [m]"
    using call rename_handleError_fallback [OF assms(5), of e]
    by (simp add: super_handleError_def)
  have thrown: "e = ThrownValue m
      \<Longrightarrow> fst (callTool cfg en registry nm raw w) = ErrorResult ExecutionFailed [m]"
    using call rename_handleError_fallback [OF assms(5), of e]
    by (simp add: super_handleError_def)
  from exists other thrown s1 s2 indexes_handleError_fallback [of e en ia]
  show ?thesis by simp
qed


theorem rename_error_translation_witness:
  \<open>fst (callTool (mock_config\<lparr> readOnly := False \<rparr>) mock_env_exists
          (mock_registry mock_env_exists)
          ''rename-collection'' () world0)
     = ToolResult [TextBlock ''Cannot rename "shop.users" to "people" because the target collection already exists. If you want to overwrite it, set the "dropTarget" argument to true.'']
   \<and> fst (callTool (mock_config\<lparr> readOnly := False \<rparr>) mock_env_unauthorized
          (mock_registry mock_env_unauthorized)
          ''rename-collection'' () world0)
     = ErrorResult ExecutionFailed [''not authorized on shop'']\<close>
proof -
  have ro: "\<not> readOnly (mock_config\<lparr> readOnly := False \<rparr>)"
    by simp
  have db: "getEffectiveDatabase en (database rename_args0) = Inr ''shop''" for en
    by (simp add: getEffectiveDatabase_def rename_args0_def)
  have r1: "resolve (mock_registry mock_env_exists) ''rename-collection''
              = Some (RenameCollectionTool mock_env_exists (\<lambda>_. Inr rename_args0))"
    by (simp add: resolve_def mock_registry_def tool_descriptors tool_names)
  have c1: "connected world0 \<or> \<not> connectFails mock_env_exists"
    by (simp add: mock_env_exists_def mock_env_def)
  have p1: "p_renameCollection (backend mock_env_exists) ''shop'' (collection rename_args0)
              (newName rename_args0) (dropTarget rename_args0)
              = Inl (JsError ''target namespace exists'' (Some ''NamespaceExists''))"
    by (simp add: mock_env_exists_def)
  have r2: "resolve (mock_registry mock_env_unauthorized) ''rename-collection''
              = Some (RenameCollectionTool mock_env_unauthorized (\<lambda>_. Inr rename_args0))"
    by (simp add: resolve_def mock_registry_def tool_descriptors tool_names)
  have c2: "connected world0 \<or> \<not> connectFails mock_env_unauthorized"
    by (simp add: mock_env_unauthorized_def mock_env_def)
  have p2: "p_renameCollection (backend mock_env_unauthorized) ''shop''
              (collection rename_args0) (newName rename_args0) (dropTarget rename_args0)
              = Inl (JsError ''not authorized on shop'' (Some ''Unauthorized''))"
    by (simp add: mock_env_unauthorized_def)
  show ?thesis
    using rename_error_translation [where raw = "()" and m = "''target namespace exists''"
        and c = "Some ''NamespaceExists''" and ia = create_args0, OF r1 _ ro c1 db p1]
      rename_error_translation [where raw = "()" and m = "''not authorized on shop''"
        and c = "Some ''Unauthorized''" and ia = create_args0, OF r2 _ ro c2 db p2]
    by (simp add: rename_args0_def)
qed

subsection \<open>The explain tool\<close>

lemma explain_method_run_calls:
  "length (calls (snd (explain_method_run en db coll m w))) = Suc (length (calls w))"
  by (cases m) (simp_all add: issue_def)

lemma explain_empty_raises:
  "\<exists>e. fst (ExplainTool_execute en (a\<lparr> method_arg := [] \<rparr>) w) = Inl e"
  by (cases "getEffectiveDatabase en (database a)")
    (auto simp: ExplainTool_execute_def io_defs ensureConnected_def)

lemma explain_empty_calls:
  "calls (snd (ExplainTool_execute en (a\<lparr> method_arg := [] \<rparr>) w)) = calls w"
  by (cases "getEffectiveDatabase en (database a)")
    (auto simp: ExplainTool_execute_def io_defs ensureConnected_def)

lemma bind_calls_same_then:
  assumes "\<And>v. calls (snd (m v)) = calls v"
    and "\<And>x v. length (calls (snd (f x v))) \<le> Suc (length (calls v))"
  shows "length (calls (snd (bind m f v))) \<le> Suc (length (calls v))"
proof (cases "m v")
  case (Pair r v')
  have same: "calls v' = calls v"
    using assms(1) [of v] Pair by simp
  show ?thesis
  proof (cases r)
    case (Inl e)
    with Pair same show ?thesis by (simp add: bind_def)
  next
    case (Inr x)
    with Pair same assms(2) [of x v'] show ?thesis by (simp add: bind_def)
  qed
qed

lemma bind_calls_then_same:
  assumes "\<And>v. length (calls (snd (m v))) \<le> Suc (length (calls v))"
    and "\<And>x v. calls (snd (f x v)) = calls v"
  shows "length (calls (snd (bind m f v))) \<le> Suc (length (calls v))"
proof (cases "m v")
  case (Pair r v')
  have le: "length (calls v') \<le> Suc (length (calls v))"
    using assms(1) [of v] Pair by simp
  show ?thesis
  proof (cases r)
    case (Inl e)
    with Pair le show ?thesis by (simp add: bind_def)
  next
    case (Inr x)
    with Pair le assms(2) [of x v'] show ?thesis by (simp add: bind_def)
  qed
qed

lemma explain_at_most_one_call:
  "length (calls (snd (ExplainTool_execute en a w))) \<le> Suc (length (calls w))"
proof -
  have step: "length (calls (snd ((case method_arg a of
                  [] \<Rightarrow> throw e0
                | m # _ \<Rightarrow> bind (explain_method_run en db (collection a) m)
                             (\<lambda>result. ret (g m result))) v)))
                \<le> Suc (length (calls v))"
    for db v e0 and g :: "explain_method \<Rightarrow> jsval \<Rightarrow> CallToolResult"
  proof (cases "method_arg a")
    case Nil
    then show ?thesis by (simp add: throw_def)
  next
    case (Cons m rest)
    have "length (calls (snd (bind (explain_method_run en db (collection a) m)
              (\<lambda>result. ret (g m result)) v))) \<le> Suc (length (calls v))"
      by (rule bind_calls_then_same) (simp_all add: explain_method_run_calls ret_def)
    with Cons show ?thesis by simp
  qed
  show ?thesis
    unfolding ExplainTool_execute_def
    by (rule bind_calls_same_then, simp, rule bind_calls_same_then, simp add: lift_def,
        rule step)
qed

text \<open>
  C9. The explain tool runs only the first element of its method array. With two or more
  elements the call is the call with the first element alone; no call issues more than
  one operation on the provider; with an empty array the execute function raises and
  issues no operation, and, when the connection and the effective database are
  available, what it raises is the \<open>No method provided\<close> error, which the call returns
  through the generic handler as an error result of kind \<open>ExecutionFailed\<close>.
\<close>

theorem explain_first_method_only:
  \<open>ExplainTool_execute en (a\<lparr> method_arg := m # rest \<rparr>) w
     = ExplainTool_execute en (a\<lparr> method_arg := [m] \<rparr>) w
   \<and> length (calls (snd (ExplainTool_execute en a w))) \<le> Suc (length (calls w))
   \<and> (\<exists>e. fst (ExplainTool_execute en (a\<lparr> method_arg := [] \<rparr>) w) = Inl e)
   \<and> calls (snd (ExplainTool_execute en (a\<lparr> method_arg := [] \<rparr>) w)) = calls w
   \<and> ((connected w \<or> \<not> connectFails en) \<and> getEffectiveDatabase en (database a) = Inr db \<longrightarrow>
        run_bound ExplainTool_name
          \<lparr> bc_execute = ExplainTool_execute en (a\<lparr> method_arg := [] \<rparr>),
            bc_handleError = super_handleError \<rparr> w
        = (ErrorResult ExecutionFailed
             [''No method provided. Expected one of the following: `aggregate`, `find`, or `count`''],
           snd (ensureConnected en (w\<lparr> invoked := invoked w @ [ExplainTool_name] \<rparr>))))\<close>
proof -
  have first: "ExplainTool_execute en (a\<lparr> method_arg := m # rest \<rparr>) w
                 = ExplainTool_execute en (a\<lparr> method_arg := [m] \<rparr>) w"
    by (simp add: ExplainTool_execute_def)
  have generic: \<open>run_bound ExplainTool_name
          \<lparr> bc_execute = ExplainTool_execute en (a\<lparr> method_arg := [] \<rparr>),
            bc_handleError = super_handleError \<rparr> w
        = (ErrorResult ExecutionFailed
             [''No method provided. Expected one of the following: `aggregate`, `find`, or `count`''],
           snd (ensureConnected en (w\<lparr> invoked := invoked w @ [ExplainTool_name] \<rparr>)))\<close>
    if c: "connected w \<or> \<not> connectFails en"
      and d: "getEffectiveDatabase en (database a) = Inr db"
  proof -
    let ?w = "w\<lparr> invoked := invoked w @ [ExplainTool_name] \<rparr>"
    have c': "connected ?w \<or> \<not> connectFails en"
      using c by simp
    show ?thesis
      unfolding run_bound_def ExplainTool_execute_def
      by (simp add: body_resolution_ok [OF c' d]) (simp add: throw_def super_handleError_def)
  qed
  from first explain_at_most_one_call [of en a w] explain_empty_raises [of en a w]
    explain_empty_calls [of en a w] generic
  show ?thesis by blast
qed


theorem explain_first_method_only_witness:
  \<open>ExplainTool_execute mock_env explain_args0 world0
     = ExplainTool_execute mock_env
         (explain_args0\<lparr> method_arg := [CountMethod \<lparr> query = None \<rparr>] \<rparr>) world0
   \<and> calls (snd (ExplainTool_execute mock_env explain_args0 world0))
     = [Command ''app''
          (JObj [(''explain'', JObj [(''count'', JStr ''users''), (''query'', JUndefined)]),
                 (''verbosity'', JStr ''queryPlanner'')])]
   \<and> fst (run_bound ''explain''
          \<lparr> bc_execute = ExplainTool_execute mock_env (explain_args0\<lparr> method_arg := [] \<rparr>),
            bc_handleError = super_handleError \<rparr> world0)
     = ErrorResult ExecutionFailed
         [''No method provided. Expected one of the following: `aggregate`, `find`, or `count`'']
   \<and> calls (snd (ExplainTool_execute mock_env (explain_args0\<lparr> method_arg := [] \<rparr>) world0))
     = []\<close>
proof -
  have c: "connected world0 \<or> \<not> connectFails mock_env"
    by (simp add: mock_env_def)
  have d: "getEffectiveDatabase mock_env (database explain_args0) = Inr ''app''"
    by (simp add: getEffectiveDatabase_def mock_env_def explain_args0_def)
  have shape: "explain_args0
      = explain_args0\<lparr> method_arg := CountMethod \<lparr> query = None \<rparr>
                                         # [AggregateMethod \<lparr> pipeline = [] \<rparr>] \<rparr>"
    by (simp add: explain_args0_def)
  have one: "calls (snd (ExplainTool_execute mock_env
                (explain_args0\<lparr> method_arg := [CountMethod \<lparr> query = None \<rparr>] \<rparr>) world0))
     = [Command ''app''
          (JObj [(''explain'', JObj [(''count'', JStr ''users''), (''query'', JUndefined)]),
                 (''verbosity'', JStr ''queryPlanner'')])]"
    unfolding ExplainTool_execute_def
    by (simp add: io_defs ensureConnected_def getEffectiveDatabase_def mock_env_def
        explain_args0_def world0_def mock_provider_def defaultVerbosity_def)
  note T = explain_first_method_only [where en = mock_env and a = explain_args0
      and w = world0 and db = "''app''" and m = "CountMethod \<lparr> query = None \<rparr>"
      and rest = "[AggregateMethod \<lparr> pipeline = [] \<rparr>]"]
  have first: "ExplainTool_execute mock_env explain_args0 world0
     = ExplainTool_execute mock_env
         (explain_args0\<lparr> method_arg := [CountMethod \<lparr> query = None \<rparr>] \<rparr>) world0"
    using T [THEN conjunct1] shape by simp
  have none: "calls (snd (ExplainTool_execute mock_env (explain_args0\<lparr> method_arg := [] \<rparr>)
                world0)) = []"
    using T by (simp add: world0_def)
  have err: \<open>fst (run_bound ''explain''
          \<lparr> bc_execute = ExplainTool_execute mock_env (explain_args0\<lparr> method_arg := [] \<rparr>),
            bc_handleError = super_handleError \<rparr> world0)
     = ErrorResult ExecutionFailed
         [''No method provided. Expected one of the following: `aggregate`, `find`, or `count`'']\<close>
    using T c d by (simp add: ExplainTool_name_def)
  from first one none err show ?thesis by simp
qed

subsection \<open>Extended JSON in find and aggregate\<close>

lemma parse_if_present_truthy:
  "truthy v \<Longrightarrow> parse_if_present l (Some v)
     = (case EJSON_parse l (JSON_stringify l v) of Inl e \<Rightarrow> Inl e | Inr y \<Rightarrow> Inr (Some y))"
  by (simp add: parse_if_present_def)

lemma find_execute_parsed:
  assumes "connected w \<or> \<not> connectFails en"
    and "getEffectiveDatabase en (database a) = Inr db"
    and "parse_if_present (lib en) (filter_arg (find_args a)) = Inr pf"
  shows "calls (snd (FindTool_execute en a w))
           = calls w @ [Find db (collection a) pf
                          \<lparr> projection_arg = projection_arg (find_args a),
                            limit_arg = limit_arg (find_args a),
                            sort_arg = sort_arg (find_args a) \<rparr> ToArray]"
  unfolding FindTool_execute_def
  using assms(3)
  by (simp add: body_resolution_ok [OF assms(1,2)])
    (simp add: io_defs split: sum.splits)

lemma find_execute_parse_raises:
  assumes "connected w \<or> \<not> connectFails en"
    and "getEffectiveDatabase en (database a) = Inr db"
    and "parse_if_present (lib en) (filter_arg (find_args a)) = Inl e"
  shows "FindTool_execute en a w = (Inl e, snd (ensureConnected en w))"
  unfolding FindTool_execute_def
  using assms(3)
  by (simp add: body_resolution_ok [OF assms(1,2)]) (simp add: io_defs)

lemma aggregate_execute_parsed:
  assumes "connected w \<or> \<not> connectFails en"
    and "getEffectiveDatabase en (database a) = Inr db"
    and "EJSON_parse (lib en) (JSON_stringify (lib en) (JArr (pipeline (aggregate_args a))))
           = Inr y"
  shows "calls (snd (AggregateTool_execute en a w))
           = calls w @ [Aggregate db (collection a) y False ToArray]"
  unfolding AggregateTool_execute_def
  using assms(3)
  by (simp add: body_resolution_ok [OF assms(1,2)] parse_if_present_def)
    (simp add: io_defs split: sum.splits)

lemma aggregate_execute_parse_raises:
  assumes "connected w \<or> \<not> connectFails en"
    and "getEffectiveDatabase en (database a) = Inr db"
    and "EJSON_parse (lib en) (JSON_stringify (lib en) (JArr (pipeline (aggregate_args a))))
           = Inl e"
  shows "AggregateTool_execute en a w = (Inl e, snd (ensureConnected en w))"
  unfolding AggregateTool_execute_def
  using assms(3)
  by (simp add: body_resolution_ok [OF assms(1,2)] parse_if_present_def) (simp add: io_defs)

text \<open>
  C10. With the connection and the effective database available: a find call whose filter
  is present (a validated filter is an object, hence truthy) issues exactly one
  \<open>provider.find\<close>, whose filter is \<open>EJSON.parse(JSON.stringify(filter))\<close>; if that
  parse raises, the call raises the same error and issues no operation; an absent filter
  goes to \<open>provider.find\<close> as it is. An aggregate call issues exactly one
  \<open>provider.aggregate\<close>, whose pipeline is \<open>EJSON.parse(JSON.stringify(pipeline))\<close>, or
  raises what the parse raises.
\<close>

theorem find_aggregate_ejson_round_trip:
  assumes "connected w \<or> \<not> connectFails en"
    and "getEffectiveDatabase en (database fa) = Inr fdb"
    and "getEffectiveDatabase en (database ga) = Inr gdb"
  shows "(filter_arg (find_args fa) = Some v \<and> truthy v
            \<and> EJSON_parse (lib en) (JSON_stringify (lib en) v) = Inr y \<longrightarrow>
          calls (snd (FindTool_execute en fa w))
            = calls w @ [Find fdb (collection fa) (Some y)
                           \<lparr> projection_arg = projection_arg (find_args fa),
                             limit_arg = limit_arg (find_args fa),
                             sort_arg = sort_arg (find_args fa) \<rparr> ToArray])
       \<and> (filter_arg (find_args fa) = Some v \<and> truthy v
            \<and> EJSON_parse (lib en) (JSON_stringify (lib en) v) = Inl e \<longrightarrow>
          FindTool_execute en fa w = (Inl e, snd (ensureConnected en w)))
       \<and> (filter_arg (find_args fa) = None \<longrightarrow>
          calls (snd (FindTool_execute en fa w))
            = calls w @ [Find fdb (collection fa) None
                           \<lparr> projection_arg = projection_arg (find_args fa),
                             limit_arg = limit_arg (find_args fa),
                             sort_arg = sort_arg (find_args fa) \<rparr> ToArray])
       \<and> (EJSON_parse (lib en) (JSON_stringify (lib en) (JArr (pipeline (aggregate_args ga))))
            = Inr y \<longrightarrow>
          calls (snd (AggregateTool_execute en ga w))
            = calls w @ [Aggregate gdb (collection ga) y False ToArray])
       \<and> (EJSON_parse (lib en) (JSON_stringify (lib en) (JArr (pipeline (aggregate_args ga))))
            = Inl e \<longrightarrow>
          AggregateTool_execute en ga w = (Inl e, snd (ensureConnected en w)))
       \<and> truthy (JObj kv)"
proof -
  have f1: "filter_arg (find_args fa) = Some v \<Longrightarrow> truthy v
      \<Longrightarrow> EJSON_parse (lib en) (JSON_stringify (lib en) v) = Inr y
      \<Longrightarrow> calls (snd (FindTool_execute en fa w))
            = calls w @ [Find fdb (collection fa) (Some y)
                           \<lparr> projection_arg = projection_arg (find_args fa),
                             limit_arg = limit_arg (find_args fa),
                             sort_arg = sort_arg (find_args fa) \<rparr> ToArray]"
    by (rule find_execute_parsed [OF assms(1,2)]) (simp add: parse_if_present_truthy)
  have f2: "filter_arg (find_args fa) = Some v \<Longrightarrow> truthy v
      \<Longrightarrow> EJSON_parse (lib en) (JSON_stringify (lib en) v) = Inl e
      \<Longrightarrow> FindTool_execute en fa w = (Inl e, snd (ensureConnected en w))"
    by (rule find_execute_parse_raises [OF assms(1,2)]) (simp add: parse_if_present_truthy)
  have f3: "filter_arg (find_args fa) = None
      \<Longrightarrow> calls (snd (FindTool_execute en fa w))
            = calls w @ [Find fdb (collection fa) None
                           \<lparr> projection_arg = projection_arg (find_args fa),
                             limit_arg = limit_arg (find_args fa),
                             sort_arg = sort_arg (find_args fa) \<rparr> ToArray]"
    by (rule find_execute_parsed [OF assms(1,2)]) (simp add: parse_if_present_def)
  from f1 f2 f3 aggregate_execute_parsed [OF assms(1,3), of y]
    aggregate_execute_parse_raises [OF assms(1,3), of e]
  show ?thesis by simp
qed

theorem find_aggregate_ejson_round_trip_witness:
  "calls (snd (FindTool_execute mock_env find_args0 world0))
     = [Find ''app'' ''users'' (Some (JObj [(''_id'', JObjectId ''65f0'')]))
          \<lparr> projection_arg = None, limit_arg = 0, sort_arg = None \<rparr> ToArray]
   \<and> calls (snd (AggregateTool_execute mock_env aggregate_args0 world0))
     = [Aggregate ''app'' ''users'' (JArr [JObj [(''_id'', JObjectId ''65f0'')]]) False ToArray]
   \<and> calls (snd (FindTool_execute mock_env
        (find_args0\<lparr> find_args := (find_args find_args0)\<lparr> filter_arg := None \<rparr> \<rparr>) world0))
     = [Find ''app'' ''users'' None
          \<lparr> projection_arg = None, limit_arg = 0, sort_arg = None \<rparr> ToArray]"
proof -
  have c: "connected world0 \<or> \<not> connectFails mock_env"
    by (simp add: mock_env_def)
  have df: "getEffectiveDatabase mock_env (database find_args0) = Inr ''app''"
    by (simp add: getEffectiveDatabase_def mock_env_def find_args0_def)
  have df': "getEffectiveDatabase mock_env
      (database (find_args0\<lparr> find_args := (find_args find_args0)\<lparr> filter_arg := None \<rparr> \<rparr>))
      = Inr ''app''"
    by (simp add: getEffectiveDatabase_def mock_env_def find_args0_def)
  have dg: "getEffectiveDatabase mock_env (database aggregate_args0) = Inr ''app''"
    by (simp add: getEffectiveDatabase_def mock_env_def aggregate_args0_def)
  have pf: "EJSON_parse (lib mock_env) (JSON_stringify (lib mock_env) oid_filter)
              = Inr (JObj [(''_id'', JObjectId ''65f0'')])"
    by (simp add: mock_env_def mock_lib_def)
  have pg: "EJSON_parse (lib mock_env) (JSON_stringify (lib mock_env) (JArr [oid_filter]))
              = Inr (JArr [JObj [(''_id'', JObjectId ''65f0'')]])"
    by (simp add: mock_env_def mock_lib_def oid_filter_def)
  have t: "truthy oid_filter"
    by (simp add: oid_filter_def)
  show ?thesis
    using find_aggregate_ejson_round_trip [OF c df dg, where v = oid_filter
        and y = "JObj [(''_id'', JObjectId ''65f0'')]"]
      find_aggregate_ejson_round_trip [OF c df dg, where v = oid_filter
        and y = "JArr [JObj [(''_id'', JObjectId ''65f0'')]]"]
      find_aggregate_ejson_round_trip [OF c df' dg, where v = oid_filter
        and y = "JNull"]
      pf pg t
    by (simp add: find_args0_def aggregate_args0_def world0_def)
qed


subsection \<open>The serving process\<close>

lemma startHttpServer_ok:
  "startHttpServer True =
     \<lparr> nextId = 4,
       globalServer = Some \<lparr> srv_id = 3, srv_session = 0, srv_mcpServer = 1, srv_telemetry = 2 \<rparr>,
       isServerInitialized = True, connections = [],
       events = [Log Info ServerInitialized, Log Info ServerInitialized] \<rparr>"
  by (simp add: startHttpServer_def initializeGlobalServer_def proc0_def new_Server_def
      emit_def)

lemma proc_inv_start: "proc_inv (startHttpServer True)"
  by (simp add: startHttpServer_ok proc_inv_def)

lemma proc_inv_sse_get:
  assumes "proc_inv st"
  shows "proc_inv (sse_get ok st)"
proof -
  from assms obtain g where g: "globalServer st = Some g"
    by (auto simp: proc_inv_def split: option.splits)
  have older: "list_all (\<lambda>p. fst p < nextId st \<and> srv_id (snd p) < nextId st
      \<and> srv_session (snd p) < nextId st) (connections st)"
    using assms g by (auto simp: proc_inv_def list_all_iff)
  have new_tr: "nextId st \<notin> fst ` set (connections st)"
    using older by (auto simp: list_all_iff)
  have new_session: "Suc (nextId st) \<notin> (\<lambda>p. srv_session (snd p)) ` set (connections st)"
    using older by (auto simp: list_all_iff)
  have new_id: "nextId st + 4 \<notin> (\<lambda>p. srv_id (snd p)) ` set (connections st)"
    using older by (auto simp: list_all_iff)
  show ?thesis
    using assms g new_tr new_session new_id
    by (auto simp: proc_inv_def sse_get_def new_Server_def emit_def Let_def list_all_iff)
qed

lemma proc_inv_sse_req_close:
  assumes "proc_inv st"
  shows "proc_inv (sse_req_close c ok st)"
proof (cases "map_of (connections st) c")
  case None
  with assms show ?thesis by (simp add: sse_req_close_def)
next
  case (Some s)
  then have mem: "(c, s) \<in> set (connections st)"
    by (rule map_of_SomeD)
  from assms obtain g where g: "globalServer st = Some g"
    by (auto simp: proc_inv_def split: option.splits)
  have ne: "srv_id s \<noteq> srv_id g"
    using assms g mem by (auto simp: proc_inv_def list_all_iff)
  show ?thesis
    using assms g Some ne
    by (auto simp: proc_inv_def sse_req_close_def emit_def list_all_iff distinct_map_filter)
qed

lemma proc_inv_sse_req_error:
  assumes "proc_inv st"
  shows "proc_inv (sse_req_error c ok st)"
proof (cases "map_of (connections st) c")
  case None
  with assms show ?thesis by (simp add: sse_req_error_def)
next
  case (Some s)
  then have mem: "(c, s) \<in> set (connections st)"
    by (rule map_of_SomeD)
  from assms obtain g where g: "globalServer st = Some g"
    by (auto simp: proc_inv_def split: option.splits)
  have ne: "srv_id s \<noteq> srv_id g"
    using assms g mem by (auto simp: proc_inv_def list_all_iff)
  show ?thesis
    using assms g Some ne
    by (auto simp: proc_inv_def sse_req_error_def emit_def list_all_iff)
qed

lemma proc_inv_sse_step: "proc_inv st \<Longrightarrow> proc_inv (sse_step st i)"
  by (cases i) (simp_all add: proc_inv_sse_get proc_inv_sse_req_close proc_inv_sse_req_error)

lemma proc_inv_sse_run: "proc_inv st \<Longrightarrow> proc_inv (sse_run inputs st)"
  unfolding sse_run_def
  by (induction inputs arbitrary: st) (simp_all add: proc_inv_sse_step)

lemma globalServer_sse_step [simp]: "globalServer (sse_step st i) = globalServer st"
  by (cases i)
    (auto simp: sse_get_def sse_req_close_def sse_req_error_def emit_def new_Server_def Let_def
      split: option.splits)

lemma globalServer_sse_run [simp]: "globalServer (sse_run inputs st) = globalServer st"
  unfolding sse_run_def
  by (induction inputs arbitrary: st) simp_all

lemma proc_inv_mcp_post:
  assumes "proc_inv st"
  shows "proc_inv (snd (mcp_post c h st))"
  using assms
  by (auto simp: proc_inv_def mcp_post_def getServer_def new_Server_def emit_def Let_def
      list_all_iff split: option.splits)

lemma proc_inv_mcp_run: "proc_inv st \<Longrightarrow> proc_inv (mcp_run reqs st)"
  unfolding mcp_run_def
  by (induction reqs arbitrary: st) (simp_all add: proc_inv_mcp_post)

lemma mcp_post_module_state:
  "globalServer (snd (mcp_post c h st)) = globalServer st
   \<and> isServerInitialized (snd (mcp_post c h st)) = isServerInitialized st
   \<and> connections (snd (mcp_post c h st)) = connections st"
  by (simp add: mcp_post_def getServer_def new_Server_def emit_def Let_def)

lemma mcp_run_module_state:
  "globalServer (mcp_run reqs st) = globalServer st
   \<and> isServerInitialized (mcp_run reqs st) = isServerInitialized st
   \<and> connections (mcp_run reqs st) = connections st"
  unfolding mcp_run_def
  by (induction reqs arbitrary: st) (simp_all add: mcp_post_module_state)


subsection \<open>Shutdown\<close>

lemma shutdown_events:
  assumes "globalServer st = Some g"
  shows "events (shutdown ok cb st)
           = events st @ [Log Info ServerCloseRequested, HttpServerClose, ServerClose (srv_id g)]
               @ (if cb then [Log Info ServerClosed] else [])
               @ (if ok then [Log Info ServerClosed, ProcessExit 0]
                  else [Log Error ServerCloseFailure, ProcessExit 1])"
  using assms by (simp add: shutdown_def emit_def Let_def)

lemma closes_before_exit_suffix:
  assumes "list_all (\<lambda>e. \<not> is_exit e \<and> e \<noteq> ServerClose g \<and> e \<noteq> HttpServerClose) es"
  shows "closes_before_exit g
           (es @ [Log Info ServerCloseRequested, HttpServerClose, ServerClose g]
               @ (if cb then [Log Info ServerClosed] else [])
               @ (if ok then [Log Info ServerClosed, ProcessExit 0]
                  else [Log Error ServerCloseFailure, ProcessExit 1]))"
proof -
  have a: "\<And>e. e \<in> set es \<Longrightarrow> e \<noteq> ServerClose g"
    and b: "\<And>e. e \<in> set es \<Longrightarrow> \<not> is_exit e"
    using assms by (auto simp: list_all_iff)
  show ?thesis
    unfolding closes_before_exit_def before_exit_def
    by (simp add: takeWhile_append2 [of es, OF a] takeWhile_append2 [of es, OF b])
qed

lemma shutdown_closes_before_exit:
  assumes "proc_inv st" and "globalServer st = Some g"
  shows "closes_before_exit (srv_id g) (events (shutdown ok cb st))"
proof -
  have "list_all (\<lambda>e. \<not> is_exit e \<and> e \<noteq> ServerClose (srv_id g) \<and> e \<noteq> HttpServerClose)
          (events st)"
    using assms by (simp add: proc_inv_def)
  then show ?thesis
    unfolding shutdown_events [OF assms(2)] by (rule closes_before_exit_suffix)
qed

lemma http_run_server [simp]: "h_server (http_run oks st) = h_server st"
  unfolding http_run_def
  by (induction oks arbitrary: st) (simp_all add: http_sse_get_def h_emit_def Let_def)

lemma http_run_quiet:
  assumes "list_all (\<lambda>e. \<not> is_exit e \<and> e \<noteq> ServerClose g \<and> e \<noteq> HttpServerClose) (h_events st)"
  shows "list_all (\<lambda>e. \<not> is_exit e \<and> e \<noteq> ServerClose g \<and> e \<noteq> HttpServerClose)
           (h_events (http_run oks st))"
  using assms unfolding http_run_def
  by (induction oks arbitrary: st) (simp_all add: http_sse_get_def h_emit_def Let_def)

lemma http_on_signal_events:
  "h_events (http_on_signal sig ok cb st)
     = h_events st @ [Log Info ServerCloseRequested, HttpServerClose,
                      ServerClose (srv_id (h_server st))]
         @ (if cb then [Log Info ServerClosed] else [])
         @ (if ok then [Log Info ServerClosed, ProcessExit 0]
            else [Log Error ServerCloseFailure, ProcessExit 1])"
  by (cases sig) (simp_all add: h_emit_def)

text \<open>
  C7. In each of the three entry points, whatever the clients did before, a SIGINT or
  SIGTERM makes the process log the request, ask the HTTP server to stop accepting
  connections, call \<open>close\<close> on the Server created at startup (the object with identity 3,
  which owns the shared Session) and await it, and exit only then: with status 0 when
  the close succeeded, and, when it failed, after logging the failure, with status 1.
  The exit is the last event, and no exit precedes the request to close.
\<close>

theorem shutdown_closes_server_before_exit:
  "map_option srv_id (globalServer (sse_run inputs (startHttpServer True))) = Some 3
   \<and> events (on_signal sig ok cb (sse_run inputs (startHttpServer True)))
       = events (sse_run inputs (startHttpServer True))
           @ [Log Info ServerCloseRequested, HttpServerClose, ServerClose 3]
           @ (if cb then [Log Info ServerClosed] else [])
           @ (if ok then [Log Info ServerClosed, ProcessExit 0]
              else [Log Error ServerCloseFailure, ProcessExit 1])
   \<and> closes_before_exit 3 (events (on_signal sig ok cb (sse_run inputs (startHttpServer True))))
   \<and> map_option srv_id (globalServer (mcp_run reqs (startHttpServer True))) = Some 3
   \<and> events (on_signal sig ok cb (mcp_run reqs (startHttpServer True)))
       = events (mcp_run reqs (startHttpServer True))
           @ [Log Info ServerCloseRequested, HttpServerClose, ServerClose 3]
           @ (if cb then [Log Info ServerClosed] else [])
           @ (if ok then [Log Info ServerClosed, ProcessExit 0]
              else [Log Error ServerCloseFailure, ProcessExit 1])
   \<and> closes_before_exit 3 (events (on_signal sig ok cb (mcp_run reqs (startHttpServer True))))
   \<and> srv_id (h_server (http_run oks http_start)) = 3
   \<and> h_events (http_on_signal sig ok cb (http_run oks http_start))
       = h_events (http_run oks http_start)
           @ [Log Info ServerCloseRequested, HttpServerClose, ServerClose 3]
           @ (if cb then [Log Info ServerClosed] else [])
           @ (if ok then [Log Info ServerClosed, ProcessExit 0]
              else [Log Error ServerCloseFailure, ProcessExit 1])
   \<and> closes_before_exit 3 (h_events (http_on_signal sig ok cb (http_run oks http_start)))"
proof -
  let ?g = "\<lparr> srv_id = 3, srv_session = 0, srv_mcpServer = 1, srv_telemetry = 2 \<rparr>"
  have g0: "globalServer (startHttpServer True) = Some ?g"
    by (simp add: startHttpServer_ok)
  have gs: "globalServer (sse_run inputs (startHttpServer True)) = Some ?g"
    using g0 by simp
  have gm: "globalServer (mcp_run reqs (startHttpServer True)) = Some ?g"
    using g0 by (simp add: mcp_run_module_state)
  have inv_s: "proc_inv (sse_run inputs (startHttpServer True))"
    by (rule proc_inv_sse_run [OF proc_inv_start])
  have inv_m: "proc_inv (mcp_run reqs (startHttpServer True))"
    by (rule proc_inv_mcp_run [OF proc_inv_start])
  have hs: "h_server http_start = ?g"
    by (simp add: http_start_def new_Server_def)
  have hq: "list_all (\<lambda>e. \<not> is_exit e \<and> e \<noteq> ServerClose 3 \<and> e \<noteq> HttpServerClose)
              (h_events (http_run oks http_start))"
    by (rule http_run_quiet) (simp add: http_start_def new_Server_def)
  have s1: "events (on_signal sig ok cb (sse_run inputs (startHttpServer True)))
       = events (sse_run inputs (startHttpServer True))
           @ [Log Info ServerCloseRequested, HttpServerClose, ServerClose 3]
           @ (if cb then [Log Info ServerClosed] else [])
           @ (if ok then [Log Info ServerClosed, ProcessExit 0]
              else [Log Error ServerCloseFailure, ProcessExit 1])"
    unfolding on_signal_def using shutdown_events [OF gs, of ok cb] by simp
  have s2: "closes_before_exit 3
              (events (on_signal sig ok cb (sse_run inputs (startHttpServer True))))"
    unfolding on_signal_def using shutdown_closes_before_exit [OF inv_s gs, of ok cb] by simp
  have m1: "events (on_signal sig ok cb (mcp_run reqs (startHttpServer True)))
       = events (mcp_run reqs (startHttpServer True))
           @ [Log Info ServerCloseRequested, HttpServerClose, ServerClose 3]
           @ (if cb then [Log Info ServerClosed] else [])
           @ (if ok then [Log Info ServerClosed, ProcessExit 0]
              else [Log Error ServerCloseFailure, ProcessExit 1])"
    unfolding on_signal_def using shutdown_events [OF gm, of ok cb] by simp
  have m2: "closes_before_exit 3
              (events (on_signal sig ok cb (mcp_run reqs (startHttpServer True))))"
    unfolding on_signal_def using shutdown_closes_before_exit [OF inv_m gm, of ok cb] by simp
  have h1: "h_events (http_on_signal sig ok cb (http_run oks http_start))
       = h_events (http_run oks http_start)
           @ [Log Info ServerCloseRequested, HttpServerClose, ServerClose 3]
           @ (if cb then [Log Info ServerClosed] else [])
           @ (if ok then [Log Info ServerClosed, ProcessExit 0]
              else [Log Error ServerCloseFailure, ProcessExit 1])"
    by (simp add: http_on_signal_events hs)
  have h2: "closes_before_exit 3 (h_events (http_on_signal sig ok cb (http_run oks http_start)))"
    unfolding h1 using hq by (rule closes_before_exit_suffix)
  from gs gm hs s1 s2 m1 m2 h1 h2 show ?thesis by simp
qed


subsection \<open>One Server per request\<close>

lemma mcp_post_objects:
  "fst (mcp_post c h st)
     = (\<lparr> srv_id = nextId st + 3, srv_session = nextId st, srv_mcpServer = nextId st + 1,
          srv_telemetry = nextId st + 2 \<rparr>,
        \<lparr> tr_id = nextId st + 4, sessionIdGenerator = None \<rparr>)"
  by (simp add: mcp_post_def getServer_def new_Server_def Let_def)

lemma mcp_post_state:
  "snd (mcp_post c h st)
     = st\<lparr> nextId := nextId st + 5,
           events := events st
             @ [ServerConnect \<lparr> srv_id = nextId st + 3, srv_session = nextId st,
                                srv_mcpServer = nextId st + 1,
                                srv_telemetry = nextId st + 2 \<rparr> (nextId st + 4)]
             @ (if \<not> c then [Respond 500]
                else if \<not> h then [HandleRequest (nextId st + 4), Respond 500]
                else [HandleRequest (nextId st + 4)])
             @ [TransportClose (nextId st + 4)] \<rparr>"
  by (simp add: mcp_post_def getServer_def new_Server_def emit_def Let_def)

lemma mcp_run_nextId_mono: "nextId st \<le> nextId (mcp_run reqs st)"
  unfolding mcp_run_def
proof (induction reqs arbitrary: st)
  case Nil
  show ?case by simp
next
  case (Cons r reqs)
  have "nextId st \<le> nextId (snd (mcp_post (fst r) (snd r) st))"
    by (simp add: mcp_post_state)
  also have "\<dots> \<le> nextId (foldl (\<lambda>s r. snd (mcp_post (fst r) (snd r) s))
                        (snd (mcp_post (fst r) (snd r) st)) reqs)"
    by (rule Cons.IH)
  finally show ?case by simp
qed

lemma mcp_run_nextId_start: "4 \<le> nextId (mcp_run reqs (startHttpServer True))"
  using mcp_run_nextId_mono [of "startHttpServer True" reqs]
  by (simp add: startHttpServer_ok)

lemma mcp_post_no_close:
  "ServerClose k \<in> set (events (snd (mcp_post c h st))) \<longleftrightarrow> ServerClose k \<in> set (events st)"
  by (simp add: mcp_post_state)

lemma mcp_run_no_close:
  "ServerClose k \<in> set (events (mcp_run reqs st)) \<longleftrightarrow> ServerClose k \<in> set (events st)"
  unfolding mcp_run_def
  by (induction reqs arbitrary: st) (simp_all add: mcp_post_no_close)

text \<open>
  C3. In the streamable-HTTP entry point, after any number of served requests, with \<open>n\<close>
  the object counter: a POST to \<open>/mcp\<close> constructs a Session \<open>n\<close>, a protocol server
  \<open>n + 1\<close>, a telemetry \<open>n + 2\<close>, a Server \<open>n + 3\<close> and a transport \<open>n + 4\<close> without a
  session-id generator. These are five objects, none of them constructed before
  (\<open>n\<close> is at least 4, and the global Server and its parts are the objects 0 to 3). The
  request advances the counter by five and leaves the module state as it was, so none
  of these objects is retained. Of the five, only the transport is closed when the
  response closes: \<open>close\<close> is never called on the request's Server, which owns the
  Session, neither by the request, nor by a later request, nor at shutdown.
\<close>

theorem per_request_server_never_closed:
  "fst (mcp_post c h (mcp_run reqs (startHttpServer True)))
     = (\<lparr> srv_id = nextId (mcp_run reqs (startHttpServer True)) + 3,
          srv_session = nextId (mcp_run reqs (startHttpServer True)),
          srv_mcpServer = nextId (mcp_run reqs (startHttpServer True)) + 1,
          srv_telemetry = nextId (mcp_run reqs (startHttpServer True)) + 2 \<rparr>,
        \<lparr> tr_id = nextId (mcp_run reqs (startHttpServer True)) + 4,
          sessionIdGenerator = None \<rparr>)
   \<and> 4 \<le> nextId (mcp_run reqs (startHttpServer True))
   \<and> globalServer (mcp_run reqs (startHttpServer True))
       = Some \<lparr> srv_id = 3, srv_session = 0, srv_mcpServer = 1, srv_telemetry = 2 \<rparr>
   \<and> snd (mcp_post c h (mcp_run reqs (startHttpServer True)))
       = (mcp_run reqs (startHttpServer True))
           \<lparr> nextId := nextId (mcp_run reqs (startHttpServer True)) + 5,
             events := events (mcp_run reqs (startHttpServer True))
               @ [ServerConnect
                    \<lparr> srv_id = nextId (mcp_run reqs (startHttpServer True)) + 3,
                      srv_session = nextId (mcp_run reqs (startHttpServer True)),
                      srv_mcpServer = nextId (mcp_run reqs (startHttpServer True)) + 1,
                      srv_telemetry = nextId (mcp_run reqs (startHttpServer True)) + 2 \<rparr>
                    (nextId (mcp_run reqs (startHttpServer True)) + 4)]
               @ (if \<not> c then [Respond 500]
                  else if \<not> h
                    then [HandleRequest (nextId (mcp_run reqs (startHttpServer True)) + 4),
                          Respond 500]
                  else [HandleRequest (nextId (mcp_run reqs (startHttpServer True)) + 4)])
               @ [TransportClose (nextId (mcp_run reqs (startHttpServer True)) + 4)] \<rparr>
   \<and> ServerClose (nextId (mcp_run reqs (startHttpServer True)) + 3)
       \<notin> set (events (on_signal sig ok cb
             (mcp_run later_reqs (snd (mcp_post c h (mcp_run reqs (startHttpServer True)))))))"
proof -
  let ?st = "mcp_run reqs (startHttpServer True)"
  let ?g = "\<lparr> srv_id = 3, srv_session = 0, srv_mcpServer = 1, srv_telemetry = 2 \<rparr>"
  let ?end = "mcp_run later_reqs (snd (mcp_post c h ?st))"
  have four: "4 \<le> nextId ?st"
    by (rule mcp_run_nextId_start)
  have g: "globalServer ?st = Some ?g"
    by (simp add: mcp_run_module_state startHttpServer_ok)
  have g_end: "globalServer ?end = Some ?g"
    by (simp add: mcp_run_module_state mcp_post_module_state startHttpServer_ok)
  have quiet: "ServerClose k \<notin> set (events ?end)" for k
    by (simp add: mcp_run_no_close mcp_post_no_close startHttpServer_ok)
  have never: "ServerClose (nextId ?st + 3) \<notin> set (events (on_signal sig ok cb ?end))"
    unfolding on_signal_def shutdown_events [OF g_end]
    using four quiet [of "nextId ?st + 3"] by simp
  from four g never show ?thesis
    by (simp add: mcp_post_objects mcp_post_state)
qed

subsection \<open>Sessions of the event-stream connections\<close>

lemma http_inv_get: "http_inv st \<Longrightarrow> http_inv (http_sse_get ok st)"
  by (auto simp: http_inv_def http_sse_get_def h_emit_def Let_def list_all_iff)

lemma http_inv_run: "http_inv st \<Longrightarrow> http_inv (http_run oks st)"
  unfolding http_run_def
  by (induction oks arbitrary: st) (simp_all add: http_inv_get)

lemma http_inv_start: "http_inv http_start"
  by (simp add: http_inv_def http_start_def new_Server_def)

lemma sse_get_served:
  assumes "globalServer st = Some g" and "isServerInitialized st"
  shows "sse_get ok st
     = st\<lparr> nextId := nextId st + 5,
           connections := connections st
             @ (if ok then [(nextId st, \<lparr> srv_id = nextId st + 4, srv_session = nextId st + 1,
                                        srv_mcpServer = nextId st + 2,
                                        srv_telemetry = nextId st + 3 \<rparr>)] else []),
           events := events st
             @ [Log Info ServerInitialized, WriteHead 200,
                ServerConnect \<lparr> srv_id = nextId st + 4, srv_session = nextId st + 1,
                                srv_mcpServer = nextId st + 2,
                                srv_telemetry = nextId st + 3 \<rparr> (nextId st)]
             @ (if ok then [Log Info ServerInitialized] else [Log Error ServerStartFailure]) \<rparr>"
  using assms by (simp add: sse_get_def new_Server_def emit_def Let_def)

text \<open>
  C2. In the event-stream entry point \<open>part_003\<close>, after a successful startup and
  whatever clients did before, with \<open>n\<close> the object counter: the global Server is still
  the one created at startup, with the Session 0; a GET on \<open>/sse\<close> constructs the
  transport \<open>n\<close>, a new Session \<open>n + 1\<close> and a new Server \<open>n + 4\<close> on that Session, and
  calls \<open>connect\<close> on this new Server, not on the global one (\<open>n\<close> is at least 4);
  when the connect succeeds, the connection is registered with the new Server, and when
  it throws, nothing is registered. So no client is ever bound to the Session created at
  startup. When the first client arrives and the connect throws, the trace is the one
  given. In \<open>http-server.ts\<close>, the handler calls \<open>connect\<close> on the one Server created at
  startup, with the Session 0, for every client.
\<close>

theorem sse_connection_bound_to_new_session:
  "globalServer (sse_run inputs (startHttpServer True))
     = Some \<lparr> srv_id = 3, srv_session = 0, srv_mcpServer = 1, srv_telemetry = 2 \<rparr>
   \<and> 4 \<le> nextId (sse_run inputs (startHttpServer True))
   \<and> sse_get ok (sse_run inputs (startHttpServer True))
       = (sse_run inputs (startHttpServer True))
           \<lparr> nextId := nextId (sse_run inputs (startHttpServer True)) + 5,
             connections := connections (sse_run inputs (startHttpServer True))
               @ (if ok
                  then [(nextId (sse_run inputs (startHttpServer True)),
                         \<lparr> srv_id = nextId (sse_run inputs (startHttpServer True)) + 4,
                           srv_session = nextId (sse_run inputs (startHttpServer True)) + 1,
                           srv_mcpServer = nextId (sse_run inputs (startHttpServer True)) + 2,
                           srv_telemetry = nextId (sse_run inputs (startHttpServer True)) + 3 \<rparr>)]
                  else []),
             events := events (sse_run inputs (startHttpServer True))
               @ [Log Info ServerInitialized, WriteHead 200,
                  ServerConnect
                    \<lparr> srv_id = nextId (sse_run inputs (startHttpServer True)) + 4,
                      srv_session = nextId (sse_run inputs (startHttpServer True)) + 1,
                      srv_mcpServer = nextId (sse_run inputs (startHttpServer True)) + 2,
                      srv_telemetry = nextId (sse_run inputs (startHttpServer True)) + 3 \<rparr>
                    (nextId (sse_run inputs (startHttpServer True)))]
               @ (if ok then [Log Info ServerInitialized]
                  else [Log Error ServerStartFailure]) \<rparr>
   \<and> list_all (\<lambda>p. srv_session (snd p) \<noteq> 0 \<and> srv_id (snd p) \<noteq> 3)
        (connections (sse_run inputs (startHttpServer True)))
   \<and> sse_get False (startHttpServer True)
       = \<lparr> nextId = 9,
           globalServer = Some \<lparr> srv_id = 3, srv_session = 0, srv_mcpServer = 1,
                                 srv_telemetry = 2 \<rparr>,
           isServerInitialized = True, connections = [],
           events = [Log Info ServerInitialized, Log Info ServerInitialized,
                     Log Info ServerInitialized, WriteHead 200,
                     ServerConnect \<lparr> srv_id = 8, srv_session = 5, srv_mcpServer = 6,
                                     srv_telemetry = 7 \<rparr> 4,
                     Log Error ServerStartFailure] \<rparr>
   \<and> h_server (http_run oks http_start)
       = \<lparr> srv_id = 3, srv_session = 0, srv_mcpServer = 1, srv_telemetry = 2 \<rparr>
   \<and> h_events (http_sse_get ok (http_run oks http_start))
       = h_events (http_run oks http_start)
           @ [ServerConnect \<lparr> srv_id = 3, srv_session = 0, srv_mcpServer = 1,
                              srv_telemetry = 2 \<rparr> (h_nextId (http_run oks http_start))]
           @ (if ok then [Log Info ServerInitialized]
              else [Log Error ServerStartFailure, Respond 500])
   \<and> list_all (\<lambda>p. snd p = \<lparr> srv_id = 3, srv_session = 0, srv_mcpServer = 1,
                              srv_telemetry = 2 \<rparr>) (h_connections (http_run oks http_start))"
proof -
  let ?st = "sse_run inputs (startHttpServer True)"
  let ?g = "\<lparr> srv_id = 3, srv_session = 0, srv_mcpServer = 1, srv_telemetry = 2 \<rparr>"
  have g: "globalServer ?st = Some ?g"
    by (simp add: startHttpServer_ok)
  have inv: "proc_inv ?st"
    by (rule proc_inv_sse_run [OF proc_inv_start])
  have init: "isServerInitialized ?st"
    using inv g by (simp add: proc_inv_def)
  have four: "4 \<le> nextId ?st"
    using inv g by (simp add: proc_inv_def)
  have own: "list_all (\<lambda>p. srv_session (snd p) \<noteq> 0 \<and> srv_id (snd p) \<noteq> 3) (connections ?st)"
    using inv g by (auto simp: proc_inv_def list_all_iff)
  note served = sse_get_served [OF g init, of ok]
  have first: "sse_get False (startHttpServer True)
       = \<lparr> nextId = 9, globalServer = Some ?g,
           isServerInitialized = True, connections = [],
           events = [Log Info ServerInitialized, Log Info ServerInitialized,
                     Log Info ServerInitialized, WriteHead 200,
                     ServerConnect \<lparr> srv_id = 8, srv_session = 5, srv_mcpServer = 6,
                                     srv_telemetry = 7 \<rparr> 4,
                     Log Error ServerStartFailure] \<rparr>"
    by (simp add: startHttpServer_ok sse_get_def new_Server_def emit_def Let_def)
  have hs: "h_server (http_run oks http_start) = ?g"
    by (simp add: http_start_def new_Server_def)
  have he: "h_events (http_sse_get ok (http_run oks http_start))
       = h_events (http_run oks http_start)
           @ [ServerConnect ?g (h_nextId (http_run oks http_start))]
           @ (if ok then [Log Info ServerInitialized]
              else [Log Error ServerStartFailure, Respond 500])"
    using hs by (simp add: http_sse_get_def h_emit_def Let_def)
  have hinv: "http_inv (http_run oks http_start)"
    by (rule http_inv_run [OF http_inv_start])
  have hc: "list_all (\<lambda>p. snd p = ?g) (h_connections (http_run oks http_start))"
    using hinv hs by (auto simp: http_inv_def list_all_iff)
  from g four served own first hs he hc show ?thesis by simp
qed

subsection \<open>Connect memoization\<close>

lemma conn_inv_step:
  assumes "conn_inv st" and "a \<noteq> Settle False"
  shows "conn_inv (conn_step st a)"
proof (cases a)
  case (Call i)
  with assms(1) show ?thesis
    by (cases "provider_st st") (auto simp: conn_inv_def)
next
  case (Settle ok)
  with assms show ?thesis
    by (cases "provider_st st") (auto simp: conn_inv_def)
qed

lemma conn_inv_run:
  assumes "conn_inv st" and "list_all (\<lambda>a. a \<noteq> Settle False) sched"
  shows "conn_inv (conn_run sched st)"
  using assms unfolding conn_run_def
  by (induction sched arbitrary: st) (simp_all add: conn_inv_step)

lemma conn_inv_conn0: "conn_inv conn0"
  by (simp add: conn_inv_def conn0_def)

lemma conn_inv_attempts: "conn_inv st \<Longrightarrow> connect_attempts st \<le> 1"
  by (cases "provider_st st") (simp_all add: conn_inv_def)

lemma conn_inv_same_instance:
  assumes "conn_inv st" and "caller st i = Got p" and "caller st j = Got q"
  shows "p = q"
proof (cases "provider_st st")
  case Disconnected
  with assms(1,2) show ?thesis by (simp add: conn_inv_def)
next
  case Connecting
  with assms(1) have "caller st i = Idle \<or> caller st i = Awaiting"
    by (simp add: conn_inv_def)
  with assms(2) show ?thesis by simp
next
  case (Connected r)
  with assms(1) have "caller st i = Idle \<or> caller st i = Got r"
    and "caller st j = Idle \<or> caller st j = Got r"
    by (simp_all add: conn_inv_def)
  with assms(2,3) show ?thesis by simp
qed

lemma calls_while_connecting:
  assumes "provider_st st = Connecting"
    and "\<forall>k. caller st k = Idle \<or> caller st k = Awaiting"
  shows "provider_st (foldl conn_step st (map Call cs)) = Connecting
       \<and> connect_attempts (foldl conn_step st (map Call cs)) = connect_attempts st
       \<and> next_instance (foldl conn_step st (map Call cs)) = next_instance st
       \<and> (\<forall>k. caller (foldl conn_step st (map Call cs)) k
               = (if k \<in> set cs then Awaiting else caller st k))"
  using assms
proof (induction cs arbitrary: st)
  case Nil
  then show ?case by simp
next
  case (Cons c cs)
  let ?st = "conn_step st (Call c)"
  have p: "provider_st ?st = Connecting"
    using Cons.prems by simp
  have q: "\<forall>k. caller ?st k = Idle \<or> caller ?st k = Awaiting"
    using Cons.prems by simp
  have r: "connect_attempts ?st = connect_attempts st \<and> next_instance ?st = next_instance st"
    using Cons.prems by simp
  have s: "\<forall>k. caller ?st k = (if k = c then Awaiting else caller st k)"
  proof
    fix k
    from Cons.prems(2) have "caller st c = Idle \<or> caller st c = Awaiting"
      by blast
    with Cons.prems(1) show "caller ?st k = (if k = c then Awaiting else caller st k)"
      by auto
  qed
  from Cons.IH [OF p q] r s show ?case by auto
qed

lemma calls_from_disconnected:
  assumes "cs \<noteq> []"
  shows "provider_st (conn_run (map Call cs) conn0) = Connecting
       \<and> connect_attempts (conn_run (map Call cs) conn0) = 1
       \<and> next_instance (conn_run (map Call cs) conn0) = 0
       \<and> (\<forall>k. caller (conn_run (map Call cs) conn0) k
               = (if k \<in> set cs then Awaiting else Idle))"
proof -
  from assms obtain c rest where cs: "cs = c # rest"
    by (cases cs) auto
  let ?st = "conn_step conn0 (Call c)"
  have p: "provider_st ?st = Connecting"
    and a: "connect_attempts ?st = 1"
    and n: "next_instance ?st = 0"
    and k: "\<forall>k. caller ?st k = (if k = c then Awaiting else Idle)"
    by (simp_all add: conn0_def)
  have q: "\<forall>k. caller ?st k = Idle \<or> caller ?st k = Awaiting"
    using k by simp
  from calls_while_connecting [OF p q, of rest] a n k show ?thesis
    unfolding conn_run_def cs by auto
qed

text \<open>
  C6. On a Session whose provider is disconnected: in every schedule of tool calls and
  successful connect completions, at most one connect attempt is made and any two callers
  that hold a provider hold the same instance; when the calls \<open>i\<close> and \<open>j\<close> (with any
  others) all reach \<open>ensureConnected\<close> before the connect settles, the first starts the
  one connect attempt, the others await it, and at its success every one of them holds
  the instance it produced; at its failure every one of them fails, with still one
  attempt made.
\<close>

theorem connect_memoized:
  "(list_all (\<lambda>a. a \<noteq> Settle False) sched \<longrightarrow>
      connect_attempts (conn_run sched conn0) \<le> 1
      \<and> (caller (conn_run sched conn0) i = Got p \<and> caller (conn_run sched conn0) j = Got q
           \<longrightarrow> p = q))
   \<and> (i \<in> set cs \<and> j \<in> set cs \<longrightarrow>
        connect_attempts (conn_run (map Call cs) conn0) = 1
        \<and> caller (conn_run (map Call cs) conn0) i = Awaiting
        \<and> caller (conn_run (map Call cs) conn0) j = Awaiting
        \<and> connect_attempts (conn_run (map Call cs @ [Settle True]) conn0) = 1
        \<and> provider_st (conn_run (map Call cs @ [Settle True]) conn0) = Connected 0
        \<and> caller (conn_run (map Call cs @ [Settle True]) conn0) i = Got 0
        \<and> caller (conn_run (map Call cs @ [Settle True]) conn0) j = Got 0
        \<and> connect_attempts (conn_run (map Call cs @ [Settle False]) conn0) = 1
        \<and> caller (conn_run (map Call cs @ [Settle False]) conn0) i = Failed
        \<and> caller (conn_run (map Call cs @ [Settle False]) conn0) j = Failed)"
proof -
  have safety: "connect_attempts (conn_run sched conn0) \<le> 1
      \<and> (caller (conn_run sched conn0) i = Got p \<and> caller (conn_run sched conn0) j = Got q
           \<longrightarrow> p = q)"
    if "list_all (\<lambda>a. a \<noteq> Settle False) sched"
  proof -
    have inv: "conn_inv (conn_run sched conn0)"
      by (rule conn_inv_run [OF conn_inv_conn0 that])
    from conn_inv_attempts [OF inv] conn_inv_same_instance [OF inv] show ?thesis by blast
  qed
  have both: "connect_attempts (conn_run (map Call cs) conn0) = 1
        \<and> caller (conn_run (map Call cs) conn0) i = Awaiting
        \<and> caller (conn_run (map Call cs) conn0) j = Awaiting
        \<and> connect_attempts (conn_run (map Call cs @ [Settle True]) conn0) = 1
        \<and> provider_st (conn_run (map Call cs @ [Settle True]) conn0) = Connected 0
        \<and> caller (conn_run (map Call cs @ [Settle True]) conn0) i = Got 0
        \<and> caller (conn_run (map Call cs @ [Settle True]) conn0) j = Got 0
        \<and> connect_attempts (conn_run (map Call cs @ [Settle False]) conn0) = 1
        \<and> caller (conn_run (map Call cs @ [Settle False]) conn0) i = Failed
        \<and> caller (conn_run (map Call cs @ [Settle False]) conn0) j = Failed"
    if "i \<in> set cs" and "j \<in> set cs"
  proof -
    have ne: "cs \<noteq> []"
      using that(1) by auto
    note C = calls_from_disconnected [OF ne]
    have split: "conn_run (map Call cs @ [Settle ok]) conn0
                   = conn_step (conn_run (map Call cs) conn0) (Settle ok)" for ok
      by (simp add: conn_run_def)
    from C that show ?thesis
      unfolding split by simp
  qed
  from safety both show ?thesis by blast
qed

theorem connect_memoized_witness:
  "connect_attempts (conn_run [Call 0, Call 1, Settle True] conn0) = 1
   \<and> caller (conn_run [Call 0, Call 1, Settle True] conn0) 0 = Got 0
   \<and> caller (conn_run [Call 0, Call 1, Settle True] conn0) 1 = Got 0
   \<and> connect_attempts (conn_run [Call 0, Settle True, Call 1] conn0) \<le> 1
   \<and> list_all (\<lambda>a. a \<noteq> Settle False) [Call 0, Settle True, Call 1]"
proof -
  have a: "connect_attempts (conn_run [Call 0, Settle True, Call 1] conn0) \<le> 1"
    using connect_memoized [where sched = "[Call 0, Settle True, Call 1]"] by simp
  have b: "connect_attempts (conn_run [Call 0, Call 1, Settle True] conn0) = 1
   \<and> caller (conn_run [Call 0, Call 1, Settle True] conn0) 0 = Got 0
   \<and> caller (conn_run [Call 0, Call 1, Settle True] conn0) 1 = Got 0"
    using connect_memoized [where cs = "[0, 1]" and i = 0 and j = 1] by simp
  from a b show ?thesis by simp
qed

end
